theory Spec2Isabelle
  imports Complex_Main
begin

section \<open>Data model\<close>

text \<open>
  The relational schema of \<^verbatim>\<open>src/db/schema.ts\<close>, restricted to the columns the
  transaction, booking, order-request and inventory handlers read or write.

  Primary keys are natural numbers. The rows of \<^verbatim>\<open>transactions\<close> and
  \<^verbatim>\<open>bookings\<close>, which the handlers insert, are kept in a list and the primary key of a
  row is its position, so a freshly inserted row always has a key no other row has. Tables
  that the handlers only read or update by key are finite maps from key to row. Tables whose
  rows are found by a foreign key only (transaction items, sell and rent records, order
  request items, inventory adjustments) are lists of rows without a key.

  JavaScript numbers holding money are modelled as exact rationals, stock and quantities as
  unbounded integers, and a \<^verbatim>\<open>Date\<close> as its number of milliseconds since the epoch.
  Number formatting (\<^verbatim>\<open>toString\<close>, \<^verbatim>\<open>toFixed\<close>) and the rounding of the
  store's decimal columns are not modelled: a row holds the number the handler computed.

  Handlers run one after the other. Each takes the clock and the request body where it reads
  them, and the store, and returns its answer and the store it leaves. Columns and request
  fields that no decision of these handlers depends on (payment method, deposit, notes,
  expected return time, booking number, creator, \<^verbatim>\<open>updatedAt\<close>) and the notifications
  sent after a commit are left out.
\<close>

type_synonym uuid = nat
type_synonym money = rat
type_synonym timestamp = int

datatype ProductType = SELL | RENT
datatype TableStatus = EMPTY | OCCUPIED
datatype TransactionType = POS | RENTAL | BOOKING
datatype TransactionStatus = PENDING | PAID | CANCELLED | COMPLETED
datatype ItemType = PRODUCT | MENU | BOOKING
datatype ProductSellStatus = ACTIVE | CANCELLED
datatype ProductRentStatus = ACTIVE | RETURNED | CANCELLED
datatype AdjustmentType = ADD | REMOVE | CORRECTION
datatype CourtStatus = ACTIVE | MAINTENANCE | INACTIVE
datatype BookingStatus = PENDING | CONFIRMED | CANCELLED | COMPLETED
datatype PaymentStatus = UNPAID | PARTIAL | PAID
datatype OrderRequestStatus = PENDING | APPROVED | PREPARING | SERVED | REJECTED | CANCELLED

record product =
  p_name :: string
  p_price :: money
  p_stock :: int
  p_type :: ProductType
  p_isActive :: bool

record menu =
  m_name :: string
  m_price :: money
  m_stock :: "int option"
  m_isActive :: bool

record table_row =
  tb_status :: TableStatus
  tb_isActive :: bool
  tb_currentCustomerName :: "string option"
  tb_currentCustomerPhone :: "string option"
  tb_occupiedAt :: "timestamp option"

record transaction =
  t_invoiceNumber :: "int \<times> nat"
  t_type :: TransactionType
  t_tableId :: "uuid option"
  t_customerName :: "string option"
  t_totalAmount :: money
  t_paidAmount :: money
  t_changeAmount :: money
  t_status :: TransactionStatus
  t_createdAt :: timestamp

record transaction_item =
  ti_transactionId :: uuid
  ti_itemType :: ItemType
  ti_productId :: "uuid option"
  ti_menuId :: "uuid option"
  ti_quantity :: int
  ti_unitPrice :: money
  ti_subtotal :: money

record product_sell_record =
  sr_transactionId :: uuid
  sr_productId :: uuid
  sr_quantity :: int
  sr_unitPrice :: money
  sr_subtotal :: money
  sr_status :: ProductSellStatus

record product_rent_record =
  rr_transactionId :: uuid
  rr_productId :: uuid
  rr_quantity :: int
  rr_unitPrice :: money
  rr_subtotal :: money
  rr_status :: ProductRentStatus
  rr_returnedAt :: "timestamp option"

record court =
  c_name :: string
  c_status :: CourtStatus
  c_pricePerHour :: money

record booking =
  b_courtId :: uuid
  b_customerName :: string
  b_startTime :: timestamp
  b_endTime :: timestamp
  b_durationHours :: rat
  b_pricePerHour :: money
  b_totalPrice :: money
  b_paymentStatus :: PaymentStatus
  b_bookingStatus :: BookingStatus
  b_transactionId :: "uuid option"

record order_request =
  or_tableId :: uuid
  or_customerName :: string
  or_totalAmount :: money
  or_status :: OrderRequestStatus
  or_approvedBy :: "uuid option"
  or_approvedAt :: "timestamp option"
  or_rejectedReason :: "string option"
  or_transactionId :: "uuid option"

record order_request_item =
  ori_orderRequestId :: uuid
  ori_menuId :: uuid
  ori_quantity :: int
  ori_unitPrice :: money
  ori_subtotal :: money

record inventory =
  inv_name :: string
  inv_quantity :: int

record inventory_adjustment =
  ia_inventoryId :: uuid
  ia_changeType :: AdjustmentType
  ia_quantityBefore :: int
  ia_quantityAfter :: int
  ia_changeAmount :: int
  ia_reason :: string
  ia_createdBy :: uuid

record db =
  products :: "uuid \<rightharpoonup> product"
  menus :: "uuid \<rightharpoonup> menu"
  tables :: "uuid \<rightharpoonup> table_row"
  transactions :: "transaction list"
  transactionItems :: "transaction_item list"
  productSellRecords :: "product_sell_record list"
  productRentRecords :: "product_rent_record list"
  courts :: "uuid \<rightharpoonup> court"
  bookings :: "booking list"
  orderRequests :: "uuid \<rightharpoonup> order_request"
  orderRequestItems :: "order_request_item list"
  inventories :: "uuid \<rightharpoonup> inventory"
  inventoryAdjustments :: "inventory_adjustment list"

text \<open>
  What a handler answers when it does not succeed: the error responses and thrown
  \<^verbatim>\<open>Error\<close>s of the controllers, with the values their messages interpolate.
\<close>

datatype error =
    ValidationError
  | Unauthorized
  | TableNotFound
  | TableNotActive
  | ProductNotFound uuid
  | ProductNotActive string
  | MenuNotFound uuid
  | MenuNotActive string
  | InsufficientStock string int
  | InsufficientPayment
  | TransactionNotFound
  | TransactionAlreadyCancelled
  | OnlyRentalCanBeCompleted
  | TransactionAlreadyCompleted
  | CannotCompleteCancelled
  | CourtNotFound
  | CourtNotAvailable
  | TimeSlotAlreadyBooked
  | BookingNotFound
  | BookingAlreadyCancelled
  | OrderRequestNotFound
  | CannotTransition OrderRequestStatus OrderRequestStatus
  | FailedToUpdateOrderRequestStatus
  | InventoryNotFound
  | CannotRemoveMoreThanStock
  | FailedToAdjustInventoryStock
  | QuantityCannotBeNegative

text \<open>
  \<^verbatim>\<open>db.transaction(async (tx) => ...)\<close>: the callback works on its own copy of the
  store; when it throws, the store is left as it was, and when it returns, its copy is
  committed.
\<close>

definition db_transaction :: "(db \<Rightarrow> error + 'a \<times> db) \<Rightarrow> db \<Rightarrow> (error + 'a) \<times> db" where
  "db_transaction body s =
     (case body s of
        Inl e \<Rightarrow> (Inl e, s)
      | Inr (r, s') \<Rightarrow> (Inr r, s'))"

text \<open>
  \<^verbatim>\<open>generateInvoiceNumber\<close>: the day of the clock and one more than the number of
  transactions created between the start of that day and the start of the next, both ends
  included. The server's time zone is taken to be UTC; the result stands for
  \<^verbatim>\<open>INV-YYYYMMDD-NNNN\<close>.
\<close>

definition msPerDay :: int where
  "msPerDay = 86400000"

definition generateInvoiceNumber :: "timestamp \<Rightarrow> db \<Rightarrow> int \<times> nat" where
  "generateInvoiceNumber date s =
     (let startOfDay = date - date mod msPerDay;
          endOfDay = startOfDay + msPerDay;
          count = length (filter (\<lambda>t. startOfDay \<le> t_createdAt t \<and> t_createdAt t \<le> endOfDay)
                            (transactions s)) + 1
      in (date div msPerDay, count))"


definition updateById :: "('k \<rightharpoonup> 'v) \<Rightarrow> 'k \<Rightarrow> ('v \<Rightarrow> 'v) \<Rightarrow> ('k \<rightharpoonup> 'v)" where
  \<comment> \<open>\<^verbatim>\<open>update(t).set(...).where(eq(t.id, k))\<close>: changes the row when there is one.\<close>
  "updateById m k f = (case m k of None \<Rightarrow> m | Some v \<Rightarrow> m(k \<mapsto> f v))"

definition orNull :: "string option \<Rightarrow> string option" where
  \<comment> \<open>\<^verbatim>\<open>customerName || null\<close>: the empty string is falsy.\<close>
  "orNull x = (case x of None \<Rightarrow> None | Some str \<Rightarrow> if str = [] then None else Some str)"

section \<open>Transaction engine\<close>

subsection \<open>createTransaction\<close>

record item_input =
  i_itemType :: ItemType
  i_id :: uuid
  i_quantity :: int

record create_transaction_input =
  ct_type :: TransactionType
  ct_tableId :: "uuid option"
  ct_customerName :: "string option"
  ct_paidAmount :: money
  ct_items :: "item_input list"

definition transactionItemSchema :: "item_input \<Rightarrow> bool" where
  "transactionItemSchema item \<longleftrightarrow>
     (i_itemType item = ItemType.PRODUCT \<or> i_itemType item = ItemType.MENU) \<and> 0 < i_quantity item"

definition createTransactionSchema :: "create_transaction_input \<Rightarrow> bool" where
  "createTransactionSchema body \<longleftrightarrow>
     (ct_type body = TransactionType.POS \<or> ct_type body = TransactionType.RENTAL) \<and>
     0 \<le> ct_paidAmount body \<and>
     ct_items body \<noteq> [] \<and>
     list_all transactionItemSchema (ct_items body)"

record processed_item =
  pi_itemType :: ItemType
  pi_productId :: "uuid option"
  pi_menuId :: "uuid option"
  pi_quantity :: int
  pi_unitPrice :: money
  pi_subtotal :: money

record product_item =
  pr_productId :: uuid
  pr_quantity :: int
  pr_unitPrice :: money
  pr_subtotal :: money

text \<open>The variables the item loop of \<^verbatim>\<open>createTransaction\<close> updates.\<close>

record loop_state =
  ls_tx :: db
  ls_totalAmount :: money
  ls_processedItems :: "processed_item list"
  ls_productSellItems :: "product_item list"
  ls_productRentItems :: "product_item list"

text \<open>
  One round of the loop \<^verbatim>\<open>for (const item of items)\<close>: \<open>processProduct\<close> is the
  branch \<^verbatim>\<open>item.itemType === ItemType.PRODUCT\<close>, \<open>processMenu\<close> the branch
  \<^verbatim>\<open>item.itemType === ItemType.MENU\<close>. A \<^verbatim>\<open>throw\<close> is the result \<open>Inl\<close>.
\<close>

definition processProduct :: "TransactionType \<Rightarrow> item_input \<Rightarrow> loop_state \<Rightarrow> error + loop_state" where
  "processProduct type item st =
     (case products (ls_tx st) (i_id item) of
        None \<Rightarrow> Inl (ProductNotFound (i_id item))
      | Some product \<Rightarrow>
          if \<not> p_isActive product then Inl (ProductNotActive (p_name product))
          else if (p_type product = ProductType.SELL \<or> type = TransactionType.RENTAL) \<and>
                  p_stock product < i_quantity item
          then Inl (InsufficientStock (p_name product) (p_stock product))
          else
            let tx1 = (if p_type product = ProductType.SELL \<or> type = TransactionType.RENTAL
                       then (ls_tx st)\<lparr>products := updateById (products (ls_tx st)) (i_id item)
                                 (\<lambda>row. row\<lparr>p_stock := p_stock product - i_quantity item\<rparr>)\<rparr>
                       else ls_tx st);
                unitPrice = p_price product;
                subtotal = unitPrice * of_int (i_quantity item);
                tracked = \<lparr>pr_productId = i_id item, pr_quantity = i_quantity item,
                           pr_unitPrice = unitPrice, pr_subtotal = subtotal\<rparr>
            in Inr (st\<lparr>ls_tx := tx1,
                      ls_totalAmount := ls_totalAmount st + subtotal,
                      ls_processedItems := ls_processedItems st @
                        [\<lparr>pi_itemType = ItemType.PRODUCT, pi_productId = Some (i_id item),
                          pi_menuId = None, pi_quantity = i_quantity item,
                          pi_unitPrice = unitPrice, pi_subtotal = subtotal\<rparr>],
                      ls_productSellItems :=
                        (if p_type product = ProductType.SELL
                         then ls_productSellItems st @ [tracked] else ls_productSellItems st),
                      ls_productRentItems :=
                        (if p_type product = ProductType.SELL then ls_productRentItems st
                         else if p_type product = ProductType.RENT
                         then ls_productRentItems st @ [tracked] else ls_productRentItems st)\<rparr>))"

definition pushMenuItem :: "item_input \<Rightarrow> menu \<Rightarrow> db \<Rightarrow> loop_state \<Rightarrow> loop_state" where
  \<comment> \<open>The end of the MENU branch, after the stock check: price, subtotal, total and push.\<close>
  "pushMenuItem item menu tx1 st =
     (let unitPrice = m_price menu;
          subtotal = unitPrice * of_int (i_quantity item)
      in st\<lparr>ls_tx := tx1,
            ls_totalAmount := ls_totalAmount st + subtotal,
            ls_processedItems := ls_processedItems st @
              [\<lparr>pi_itemType = ItemType.MENU, pi_productId = None,
                pi_menuId = Some (i_id item), pi_quantity = i_quantity item,
                pi_unitPrice = unitPrice, pi_subtotal = subtotal\<rparr>]\<rparr>)"

definition processMenu :: "item_input \<Rightarrow> loop_state \<Rightarrow> error + loop_state" where
  "processMenu item st =
     (case menus (ls_tx st) (i_id item) of
        None \<Rightarrow> Inl (MenuNotFound (i_id item))
      | Some menu \<Rightarrow>
          if \<not> m_isActive menu then Inl (MenuNotActive (m_name menu))
          else
            (case m_stock menu of
               Some stock \<Rightarrow>
                 if stock < i_quantity item then Inl (InsufficientStock (m_name menu) stock)
                 else Inr (pushMenuItem item menu
                        ((ls_tx st)\<lparr>menus := updateById (menus (ls_tx st)) (i_id item)
                           (\<lambda>row. row\<lparr>m_stock := Some (stock - i_quantity item)\<rparr>)\<rparr>) st)
             | None \<Rightarrow> Inr (pushMenuItem item menu (ls_tx st) st)))"

definition processItem :: "TransactionType \<Rightarrow> item_input \<Rightarrow> loop_state \<Rightarrow> error + loop_state" where
  "processItem type item st =
     (if i_itemType item = ItemType.PRODUCT then processProduct type item st
      else if i_itemType item = ItemType.MENU then processMenu item st
      else Inr st)"

fun processItems :: "TransactionType \<Rightarrow> item_input list \<Rightarrow> loop_state \<Rightarrow> error + loop_state" where
  "processItems type [] st = Inr st"
| "processItems type (item # items) st =
     (case processItem type item st of
        Inl e \<Rightarrow> Inl e
      | Inr st' \<Rightarrow> processItems type items st')"


definition toTransactionItem :: "uuid \<Rightarrow> processed_item \<Rightarrow> transaction_item" where
  "toTransactionItem tid item =
     \<lparr>ti_transactionId = tid, ti_itemType = pi_itemType item, ti_productId = pi_productId item,
      ti_menuId = pi_menuId item, ti_quantity = pi_quantity item,
      ti_unitPrice = pi_unitPrice item, ti_subtotal = pi_subtotal item\<rparr>"

definition toSellRecord :: "uuid \<Rightarrow> product_item \<Rightarrow> product_sell_record" where
  "toSellRecord tid sellItem =
     \<lparr>sr_transactionId = tid, sr_productId = pr_productId sellItem,
      sr_quantity = pr_quantity sellItem, sr_unitPrice = pr_unitPrice sellItem,
      sr_subtotal = pr_subtotal sellItem, sr_status = ProductSellStatus.ACTIVE\<rparr>"

definition toRentRecord :: "uuid \<Rightarrow> product_item \<Rightarrow> product_rent_record" where
  "toRentRecord tid rentItem =
     \<lparr>rr_transactionId = tid, rr_productId = pr_productId rentItem,
      rr_quantity = pr_quantity rentItem, rr_unitPrice = pr_unitPrice rentItem,
      rr_subtotal = pr_subtotal rentItem, rr_status = ProductRentStatus.ACTIVE,
      rr_returnedAt = None\<rparr>"

definition occupyTable :: "timestamp \<Rightarrow> string option \<Rightarrow> table_row \<Rightarrow> table_row" where
  "occupyTable now customerName row =
     row\<lparr>tb_status := TableStatus.OCCUPIED, tb_currentCustomerName := orNull customerName,
         tb_occupiedAt := Some now\<rparr>"

definition clearTable :: "table_row \<Rightarrow> table_row" where
  "clearTable row =
     row\<lparr>tb_status := TableStatus.EMPTY, tb_currentCustomerName := None,
         tb_currentCustomerPhone := None, tb_occupiedAt := None\<rparr>"

definition initialLoopState :: "db \<Rightarrow> loop_state" where
  "initialLoopState tx =
     \<lparr>ls_tx = tx, ls_totalAmount = 0, ls_processedItems = [],
      ls_productSellItems = [], ls_productRentItems = []\<rparr>"

text \<open>
  The callback of the database transaction in \<^verbatim>\<open>createTransaction\<close>. \<open>s\<close> is the
  committed store, which \<^verbatim>\<open>generateInvoiceNumber\<close> queries, and \<open>tx\<close> the copy the
  callback works on.
\<close>

definition createTransactionBody ::
  "timestamp \<Rightarrow> create_transaction_input \<Rightarrow> db \<Rightarrow> db
     \<Rightarrow> error + ((uuid \<times> transaction) \<times> transaction_item list) \<times> db" where
  "createTransactionBody now body s tx =
     (case processItems (ct_type body) (ct_items body) (initialLoopState tx) of
        Inl e \<Rightarrow> Inl e
      | Inr st \<Rightarrow>
          let changeAmount = ct_paidAmount body - ls_totalAmount st in
          if changeAmount < 0 then Inl InsufficientPayment
          else
            let invoiceNumber = generateInvoiceNumber now s;
                transaction =
                  \<lparr>t_invoiceNumber = invoiceNumber, t_type = ct_type body,
                   t_tableId = ct_tableId body, t_customerName = orNull (ct_customerName body),
                   t_totalAmount = ls_totalAmount st, t_paidAmount = ct_paidAmount body,
                   t_changeAmount = changeAmount, t_status = TransactionStatus.PAID,
                   t_createdAt = now\<rparr>;
                tid = length (transactions (ls_tx st));
                insertedItems = map (toTransactionItem tid) (ls_processedItems st);
                tx1 = (ls_tx st)\<lparr>transactions := transactions (ls_tx st) @ [transaction]\<rparr>;
                tx2 = tx1\<lparr>transactionItems := transactionItems tx1 @ insertedItems\<rparr>;
                tx3 = tx2\<lparr>productSellRecords := productSellRecords tx2 @
                            map (toSellRecord tid) (ls_productSellItems st)\<rparr>;
                tx4 = tx3\<lparr>productRentRecords := productRentRecords tx3 @
                            map (toRentRecord tid) (ls_productRentItems st)\<rparr>;
                tx5 = (case ct_tableId body of
                         None \<Rightarrow> tx4
                       | Some tableId \<Rightarrow>
                           tx4\<lparr>tables := updateById (tables tx4) tableId
                                 (occupyTable now (ct_customerName body))\<rparr>)
            in Inr (((tid, transaction), insertedItems), tx5))"

definition validateTable :: "uuid option \<Rightarrow> db \<Rightarrow> error option" where
  "validateTable tableId s =
     (case tableId of
        None \<Rightarrow> None
      | Some k \<Rightarrow>
          (case tables s k of
             None \<Rightarrow> Some TableNotFound
           | Some row \<Rightarrow> if \<not> tb_isActive row then Some TableNotActive else None))"

definition createTransaction ::
  "timestamp \<Rightarrow> create_transaction_input \<Rightarrow> db
     \<Rightarrow> (error + (uuid \<times> transaction) \<times> transaction_item list) \<times> db" where
  "createTransaction now body s =
     (if \<not> createTransactionSchema body then (Inl ValidationError, s)
      else case validateTable (ct_tableId body) s of
             Some e \<Rightarrow> (Inl e, s)
           | None \<Rightarrow> db_transaction (createTransactionBody now body s) s)"

subsection \<open>cancelTransaction and completeTransaction\<close>

text \<open>
  \<open>cancelItem\<close> is one round of the loop over the transaction's items in
  \<^verbatim>\<open>cancelTransaction\<close>, \<open>completeItem\<close> one round of the loop in
  \<^verbatim>\<open>completeTransaction\<close>.
\<close>

definition findTransaction :: "uuid \<Rightarrow> db \<Rightarrow> transaction option" where
  "findTransaction k s = (if k < length (transactions s) then Some (transactions s ! k) else None)"

definition setTransactionStatus :: "uuid \<Rightarrow> TransactionStatus \<Rightarrow> db \<Rightarrow> db" where
  "setTransactionStatus k st tx =
     (if k < length (transactions tx)
      then tx\<lparr>transactions := (transactions tx)[k := (transactions tx ! k)\<lparr>t_status := st\<rparr>]\<rparr>
      else tx)"

definition cancelItem :: "transaction_item \<Rightarrow> db \<Rightarrow> db" where
  "cancelItem item tx =
     (case (if ti_itemType item = ItemType.PRODUCT then ti_productId item else None) of
        Some productId \<Rightarrow>
          (case products tx productId of
             None \<Rightarrow> tx
           | Some product \<Rightarrow>
               tx\<lparr>products := updateById (products tx) productId
                     (\<lambda>row. row\<lparr>p_stock := p_stock product + ti_quantity item\<rparr>)\<rparr>)
      | None \<Rightarrow>
          (case (if ti_itemType item = ItemType.MENU then ti_menuId item else None) of
             Some menuId \<Rightarrow>
               (case menus tx menuId of
                  None \<Rightarrow> tx
                | Some menu \<Rightarrow>
                    (case m_stock menu of
                       None \<Rightarrow> tx
                     | Some stock \<Rightarrow>
                         tx\<lparr>menus := updateById (menus tx) menuId
                               (\<lambda>row. row\<lparr>m_stock := Some (stock + ti_quantity item)\<rparr>)\<rparr>))
           | None \<Rightarrow> tx))"

fun cancelItems :: "transaction_item list \<Rightarrow> db \<Rightarrow> db" where
  "cancelItems [] tx = tx"
| "cancelItems (item # items) tx = cancelItems items (cancelItem item tx)"

definition cancelTransaction :: "uuid \<Rightarrow> db \<Rightarrow> (error + uuid) \<times> db" where
  "cancelTransaction k s =
     (case findTransaction k s of
        None \<Rightarrow> (Inl TransactionNotFound, s)
      | Some transaction \<Rightarrow>
          if t_status transaction = TransactionStatus.CANCELLED
          then (Inl TransactionAlreadyCancelled, s)
          else
            db_transaction (\<lambda>tx.
              let items = filter (\<lambda>i. ti_transactionId i = k) (transactionItems s);
                  tx1 = cancelItems items tx;
                  tx2 = tx1\<lparr>productSellRecords :=
                          map (\<lambda>r. if sr_transactionId r = k
                                    then r\<lparr>sr_status := ProductSellStatus.CANCELLED\<rparr> else r)
                              (productSellRecords tx1)\<rparr>;
                  tx3 = tx2\<lparr>productRentRecords :=
                          map (\<lambda>r. if rr_transactionId r = k
                                    then r\<lparr>rr_status := ProductRentStatus.CANCELLED\<rparr> else r)
                              (productRentRecords tx2)\<rparr>;
                  tx4 = setTransactionStatus k TransactionStatus.CANCELLED tx3;
                  tx5 = (case t_tableId transaction of
                           None \<Rightarrow> tx4
                         | Some tableId \<Rightarrow>
                             tx4\<lparr>tables := updateById (tables tx4) tableId clearTable\<rparr>)
              in Inr (k, tx5)) s)"

definition completeItem :: "transaction_item \<Rightarrow> db \<Rightarrow> db" where
  "completeItem item tx =
     (case (if ti_itemType item = ItemType.PRODUCT then ti_productId item else None) of
        Some productId \<Rightarrow>
          (case products tx productId of
             None \<Rightarrow> tx
           | Some product \<Rightarrow>
               if p_type product = ProductType.RENT
               then tx\<lparr>products := updateById (products tx) productId
                          (\<lambda>row. row\<lparr>p_stock := p_stock product + ti_quantity item\<rparr>)\<rparr>
               else tx)
      | None \<Rightarrow> tx)"

fun completeItems :: "transaction_item list \<Rightarrow> db \<Rightarrow> db" where
  "completeItems [] tx = tx"
| "completeItems (item # items) tx = completeItems items (completeItem item tx)"

definition completeTransaction :: "timestamp \<Rightarrow> uuid \<Rightarrow> db \<Rightarrow> (error + uuid) \<times> db" where
  "completeTransaction now k s =
     (case findTransaction k s of
        None \<Rightarrow> (Inl TransactionNotFound, s)
      | Some transaction \<Rightarrow>
          if t_type transaction \<noteq> TransactionType.RENTAL then (Inl OnlyRentalCanBeCompleted, s)
          else if t_status transaction = TransactionStatus.COMPLETED
          then (Inl TransactionAlreadyCompleted, s)
          else if t_status transaction = TransactionStatus.CANCELLED
          then (Inl CannotCompleteCancelled, s)
          else
            db_transaction (\<lambda>tx.
              let items = filter (\<lambda>i. ti_transactionId i = k) (transactionItems tx);
                  tx1 = completeItems items tx;
                  tx2 = tx1\<lparr>productRentRecords :=
                          map (\<lambda>r. if rr_transactionId r = k
                                    then r\<lparr>rr_status := ProductRentStatus.RETURNED,
                                           rr_returnedAt := Some now\<rparr> else r)
                              (productRentRecords tx1)\<rparr>;
                  tx3 = setTransactionStatus k TransactionStatus.COMPLETED tx2;
                  tx4 = (case t_tableId transaction of
                           None \<Rightarrow> tx3
                         | Some tableId \<Rightarrow>
                             tx3\<lparr>tables := updateById (tables tx3) tableId clearTable\<rparr>)
              in Inr (k, tx4)) s)"


section \<open>Booking engine\<close>

record create_booking_input =
  cb_courtId :: uuid
  cb_customerName :: string
  cb_customerPhone :: string
  cb_startTime :: timestamp
  cb_endTime :: timestamp
  cb_paymentStatus :: "PaymentStatus option"
  cb_paidAmount :: "money option"

definition msPerHour :: int where
  "msPerHour = 1000 * 60 * 60"

definition createBookingSchema :: "create_booking_input \<Rightarrow> bool" where
  "createBookingSchema body \<longleftrightarrow>
     cb_customerName body \<noteq> [] \<and>
     cb_customerPhone body \<noteq> [] \<and>
     (case cb_paidAmount body of None \<Rightarrow> True | Some paid \<Rightarrow> 0 \<le> paid) \<and>
     cb_endTime body > cb_startTime body \<and>
     (of_int (cb_endTime body - cb_startTime body) :: rat) / of_int msPerHour \<ge> 1"

definition paymentStatusOrDefault :: "create_booking_input \<Rightarrow> PaymentStatus" where
  \<comment> \<open>\<^verbatim>\<open>z.enum([...]).optional().default("UNPAID")\<close>\<close>
  "paymentStatusOrDefault body =
     (case cb_paymentStatus body of None \<Rightarrow> PaymentStatus.UNPAID | Some st \<Rightarrow> st)"

definition paidAmountOrDefault :: "create_booking_input \<Rightarrow> money" where
  \<comment> \<open>\<^verbatim>\<open>z.number().min(0).optional().default(0)\<close>\<close>
  "paidAmountOrDefault body = (case cb_paidAmount body of None \<Rightarrow> 0 | Some paid \<Rightarrow> paid)"

definition existingOverlaps :: "uuid \<Rightarrow> timestamp \<Rightarrow> timestamp \<Rightarrow> db \<Rightarrow> booking option" where
  "existingOverlaps courtId start end s =
     find (\<lambda>b. b_courtId b = courtId \<and>
                b_bookingStatus b \<noteq> BookingStatus.CANCELLED \<and>
                b_startTime b < end \<and> b_endTime b > start)
          (bookings s)"

definition createBooking ::
  "timestamp \<Rightarrow> create_booking_input \<Rightarrow> db
     \<Rightarrow> (error + (uuid \<times> booking) \<times> (uuid \<times> transaction)) \<times> db" where
  "createBooking now body s =
     (if \<not> createBookingSchema body then (Inl ValidationError, s)
      else case courts s (cb_courtId body) of
        None \<Rightarrow> (Inl CourtNotFound, s)
      | Some court \<Rightarrow>
          if c_status court \<noteq> CourtStatus.ACTIVE then (Inl CourtNotAvailable, s)
          else
            let start = cb_startTime body;
                end = cb_endTime body;
                initialPaymentStatus = paymentStatusOrDefault body;
                paidAmount = paidAmountOrDefault body
            in
            case existingOverlaps (cb_courtId body) start end s of
              Some overlapping \<Rightarrow> (Inl TimeSlotAlreadyBooked, s)
            | None \<Rightarrow>
                let durationHours = of_int (end - start) / of_int msPerHour;
                    pricePerHour = c_pricePerHour court;
                    totalPrice = durationHours * pricePerHour;
                    bookingStatus =
                      (if paidAmount \<ge> totalPrice then BookingStatus.CONFIRMED
                       else BookingStatus.PENDING);
                    paymentStatus =
                      (if paidAmount \<ge> totalPrice then PaymentStatus.PAID
                       else if paidAmount > 0 then PaymentStatus.PARTIAL
                       else initialPaymentStatus)
                in
                db_transaction (\<lambda>tx.
                  let transaction =
                        \<lparr>t_invoiceNumber = generateInvoiceNumber now s,
                         t_type = TransactionType.BOOKING, t_tableId = None,
                         t_customerName = Some (cb_customerName body),
                         t_totalAmount = totalPrice, t_paidAmount = paidAmount,
                         t_changeAmount = max 0 (paidAmount - totalPrice),
                         t_status =
                           (if paidAmount \<ge> totalPrice then TransactionStatus.PAID
                            else TransactionStatus.PENDING),
                         t_createdAt = now\<rparr>;
                      tid = length (transactions tx);
                      tx1 = tx\<lparr>transactions := transactions tx @ [transaction]\<rparr>;
                      booking =
                        \<lparr>b_courtId = cb_courtId body, b_customerName = cb_customerName body,
                         b_startTime = start, b_endTime = end,
                         b_durationHours = durationHours, b_pricePerHour = pricePerHour,
                         b_totalPrice = totalPrice, b_paymentStatus = paymentStatus,
                         b_bookingStatus = bookingStatus, b_transactionId = Some tid\<rparr>;
                      bid = length (bookings tx1);
                      tx2 = tx1\<lparr>bookings := bookings tx1 @ [booking]\<rparr>;
                      tx3 = tx2\<lparr>transactionItems := transactionItems tx2 @
                              [\<lparr>ti_transactionId = tid, ti_itemType = ItemType.BOOKING,
                                ti_productId = None, ti_menuId = None, ti_quantity = 1,
                                ti_unitPrice = totalPrice, ti_subtotal = totalPrice\<rparr>]\<rparr>
                  in Inr (((bid, booking), (tid, transaction)), tx3)) s)"

text \<open>A sequence of calls of \<^verbatim>\<open>createBooking\<close>, each with its clock and body.\<close>

fun createBookings :: "(timestamp \<times> create_booking_input) list \<Rightarrow> db \<Rightarrow> db" where
  "createBookings [] s = s"
| "createBookings (call # calls) s =
     createBookings calls (snd (createBooking (fst call) (snd call) s))"

definition setBookingStatus :: "uuid \<Rightarrow> BookingStatus \<Rightarrow> db \<Rightarrow> db" where
  "setBookingStatus k st tx =
     (if k < length (bookings tx)
      then tx\<lparr>bookings := (bookings tx)[k := (bookings tx ! k)\<lparr>b_bookingStatus := st\<rparr>]\<rparr>
      else tx)"

definition cancelBooking :: "uuid \<Rightarrow> db \<Rightarrow> (error + uuid) \<times> db" where
  "cancelBooking k s =
     (if \<not> k < length (bookings s) then (Inl BookingNotFound, s)
      else
        let booking = bookings s ! k in
        if b_bookingStatus booking = BookingStatus.CANCELLED
        then (Inl BookingAlreadyCancelled, s)
        else
          db_transaction (\<lambda>tx.
            let tx1 = setBookingStatus k BookingStatus.CANCELLED tx;
                tx2 = (case b_transactionId booking of
                         None \<Rightarrow> tx1
                       | Some tid \<Rightarrow> setTransactionStatus tid TransactionStatus.CANCELLED tx1)
            in Inr (k, tx2)) s)"

definition completeBooking :: "uuid \<Rightarrow> db \<Rightarrow> (error + booking) \<times> db" where
  "completeBooking k s =
     (let s' = setBookingStatus k BookingStatus.COMPLETED s in
      if k < length (bookings s') then (Inr (bookings s' ! k), s')
      else (Inl BookingNotFound, s'))"

section \<open>Order-request workflow\<close>

record update_status_input =
  us_status :: OrderRequestStatus
  us_rejectedReason :: "string option"

definition updateOrderRequestStatusSchema :: "update_status_input \<Rightarrow> bool" where
  \<comment> \<open>\<^verbatim>\<open>status: z.enum(["APPROVED", "PREPARING", "SERVED", "REJECTED", "CANCELLED"])\<close>\<close>
  "updateOrderRequestStatusSchema body \<longleftrightarrow>
     us_status body \<in> set [OrderRequestStatus.APPROVED, OrderRequestStatus.PREPARING,
       OrderRequestStatus.SERVED, OrderRequestStatus.REJECTED, OrderRequestStatus.CANCELLED]"

fun validTransitions :: "OrderRequestStatus \<Rightarrow> OrderRequestStatus list" where
  "validTransitions OrderRequestStatus.PENDING =
     [OrderRequestStatus.APPROVED, OrderRequestStatus.REJECTED, OrderRequestStatus.CANCELLED]"
| "validTransitions OrderRequestStatus.APPROVED =
     [OrderRequestStatus.PREPARING, OrderRequestStatus.CANCELLED]"
| "validTransitions OrderRequestStatus.PREPARING =
     [OrderRequestStatus.SERVED, OrderRequestStatus.CANCELLED]"
| "validTransitions OrderRequestStatus.SERVED = []"
| "validTransitions OrderRequestStatus.REJECTED = []"
| "validTransitions OrderRequestStatus.CANCELLED = []"

definition updateValues ::
  "timestamp \<Rightarrow> uuid \<Rightarrow> update_status_input \<Rightarrow> uuid option \<Rightarrow> order_request \<Rightarrow> order_request" where
  "updateValues now userId body transactionId row =
     (let r1 = row\<lparr>or_status := us_status body\<rparr>;
          r2 = (if us_status body = OrderRequestStatus.APPROVED
                then r1\<lparr>or_approvedBy := Some userId, or_approvedAt := Some now\<rparr>
                else if us_status body = OrderRequestStatus.REJECTED
                then r1\<lparr>or_rejectedReason := orNull (us_rejectedReason body)\<rparr>
                else r1)
      in case transactionId of
           None \<Rightarrow> r2
         | Some tid \<Rightarrow> r2\<lparr>or_transactionId := Some tid\<rparr>)"

text \<open>
  \<open>serveItem\<close> is one round of the loop over \<^verbatim>\<open>existing.items\<close> in the SERVED
  branch: the stock check and decrement of the menu, then the insert of the transaction item
  \<open>orderLine\<close>.
\<close>

definition orderLine :: "uuid \<Rightarrow> order_request_item \<Rightarrow> transaction_item" where
  "orderLine tid item =
     \<lparr>ti_transactionId = tid, ti_itemType = ItemType.MENU, ti_productId = None,
      ti_menuId = Some (ori_menuId item), ti_quantity = ori_quantity item,
      ti_unitPrice = ori_unitPrice item, ti_subtotal = ori_subtotal item\<rparr>"

definition serveItem :: "uuid \<Rightarrow> order_request_item \<Rightarrow> db \<Rightarrow> error + db" where
  "serveItem tid item tx =
     (case (case menus tx (ori_menuId item) of
              None \<Rightarrow> Inr tx
            | Some menu \<Rightarrow>
                (case m_stock menu of
                   None \<Rightarrow> Inr tx
                 | Some stock \<Rightarrow>
                     if stock < ori_quantity item
                     then Inl (InsufficientStock (m_name menu) stock)
                     else Inr (tx\<lparr>menus := updateById (menus tx) (ori_menuId item)
                                 (\<lambda>row. row\<lparr>m_stock := Some (stock - ori_quantity item)\<rparr>)\<rparr>))) of
        Inl e \<Rightarrow> Inl e
      | Inr tx1 \<Rightarrow> Inr (tx1\<lparr>transactionItems := transactionItems tx1 @ [orderLine tid item]\<rparr>))"

fun serveItems :: "uuid \<Rightarrow> order_request_item list \<Rightarrow> db \<Rightarrow> error + db" where
  "serveItems tid [] tx = Inr tx"
| "serveItems tid (item # items) tx =
     (case serveItem tid item tx of
        Inl e \<Rightarrow> Inl e
      | Inr tx' \<Rightarrow> serveItems tid items tx')"

definition servedTransaction :: "timestamp \<Rightarrow> uuid \<Rightarrow> order_request \<Rightarrow> db \<Rightarrow> transaction" where
  "servedTransaction now userId existing s =
     \<lparr>t_invoiceNumber = generateInvoiceNumber now s, t_type = TransactionType.POS,
      t_tableId = Some (or_tableId existing), t_customerName = Some (or_customerName existing),
      t_totalAmount = or_totalAmount existing, t_paidAmount = 0, t_changeAmount = 0,
      t_status = TransactionStatus.PENDING, t_createdAt = now\<rparr>"

text \<open>
  The callback of the database transaction in \<^verbatim>\<open>updateOrderRequestStatus\<close>; \<open>s\<close> is
  the committed store and \<open>tx\<close> the working copy.
\<close>

definition updateStatusBody ::
  "timestamp \<Rightarrow> uuid \<Rightarrow> uuid \<Rightarrow> update_status_input \<Rightarrow> order_request
     \<Rightarrow> order_request_item list \<Rightarrow> db \<Rightarrow> db
     \<Rightarrow> error + (order_request option \<times> (uuid \<times> transaction) option) \<times> db" where
  "updateStatusBody now userId k body existing items s tx =
     (if us_status body = OrderRequestStatus.SERVED then
        let transaction = servedTransaction now userId existing s;
            tid = length (transactions tx);
            tx1 = tx\<lparr>transactions := transactions tx @ [transaction]\<rparr>
        in case serveItems tid items tx1 of
             Inl e \<Rightarrow> Inl e
           | Inr tx2 \<Rightarrow>
               let tx3 = tx2\<lparr>orderRequests := updateById (orderRequests tx2) k
                                (updateValues now userId body (Some tid))\<rparr>
               in Inr ((orderRequests tx3 k, Some (tid, transaction)), tx3)
      else
        let tx1 = tx\<lparr>orderRequests := updateById (orderRequests tx) k
                         (updateValues now userId body None)\<rparr>
        in Inr ((orderRequests tx1 k, None), tx1))"

definition updateOrderRequestStatus ::
  "timestamp \<Rightarrow> uuid option \<Rightarrow> uuid \<Rightarrow> update_status_input \<Rightarrow> db
     \<Rightarrow> (error + order_request option \<times> (uuid \<times> transaction) option) \<times> db" where
  "updateOrderRequestStatus now user k body s =
     (if \<not> updateOrderRequestStatusSchema body then (Inl ValidationError, s)
      else case user of
        None \<Rightarrow> (Inl Unauthorized, s)
      | Some userId \<Rightarrow>
          (case orderRequests s k of
             None \<Rightarrow> (Inl OrderRequestNotFound, s)
           | Some existing \<Rightarrow>
               let items = filter (\<lambda>i. ori_orderRequestId i = k) (orderRequestItems s) in
               if us_status body \<notin> set (validTransitions (or_status existing))
               then (Inl (CannotTransition (or_status existing) (us_status body)), s)
               else
                 (case db_transaction (updateStatusBody now userId k body existing items s) s of
                    (Inl e, s') \<Rightarrow> (Inl FailedToUpdateOrderRequestStatus, s')
                  | (Inr r, s') \<Rightarrow> (Inr r, s'))))"

section \<open>Inventory adjustment ledger\<close>




section \<open>Notions used to state the properties, and example stores\<close>

text \<open>
  The quantity the PRODUCT items of a request ask of product \<open>pid\<close>, and the quantity its
  MENU items ask of menu \<open>mid\<close>.
\<close>

fun productDemand :: "uuid \<Rightarrow> item_input list \<Rightarrow> int" where
  "productDemand pid [] = 0"
| "productDemand pid (item # items) =
     (if i_itemType item = ItemType.PRODUCT \<and> i_id item = pid then i_quantity item else 0)
       + productDemand pid items"

fun menuDemand :: "uuid \<Rightarrow> item_input list \<Rightarrow> int" where
  "menuDemand mid [] = 0"
| "menuDemand mid (item # items) =
     (if i_itemType item = ItemType.MENU \<and> i_id item = mid then i_quantity item else 0)
       + menuDemand mid items"




text \<open>
  An example store: a racket for rent and balls for sale, tea with a stock and water without,
  one table, one court, one inventory.
\<close>

definition shop :: db where
  "shop =
     \<lparr>products =
        [1 \<mapsto> \<lparr>p_name = ''Racket'', p_price = 50000, p_stock = 5,
                p_type = ProductType.RENT, p_isActive = True\<rparr>,
         2 \<mapsto> \<lparr>p_name = ''Ball'', p_price = 25000, p_stock = 10,
                p_type = ProductType.SELL, p_isActive = True\<rparr>],
      menus =
        [1 \<mapsto> \<lparr>m_name = ''Tea'', m_price = 8000, m_stock = Some 3, m_isActive = True\<rparr>,
         2 \<mapsto> \<lparr>m_name = ''Water'', m_price = 5000, m_stock = None, m_isActive = True\<rparr>],
      tables =
        [1 \<mapsto> \<lparr>tb_status = TableStatus.EMPTY, tb_isActive = True,
                tb_currentCustomerName = None, tb_currentCustomerPhone = None,
                tb_occupiedAt = None\<rparr>],
      transactions = [], transactionItems = [],
      productSellRecords = [], productRentRecords = [],
      courts =
        [1 \<mapsto> \<lparr>c_name = ''Court A'', c_status = CourtStatus.ACTIVE, c_pricePerHour = 100000\<rparr>],
      bookings = [],
      orderRequests = Map.empty, orderRequestItems = [],
      inventories = [1 \<mapsto> \<lparr>inv_name = ''Net'', inv_quantity = 4\<rparr>],
      inventoryAdjustments = []\<rparr>"

text \<open>
  A POS order at table 1: \<open>balls\<close> balls, two teas and seven waters, paying \<open>paid\<close>.
\<close>

definition posOrder :: "money \<Rightarrow> int \<Rightarrow> create_transaction_input" where
  "posOrder paid balls =
     \<lparr>ct_type = TransactionType.POS, ct_tableId = Some 1, ct_customerName = Some ''Ana'',
      ct_paidAmount = paid,
      ct_items =
        [\<lparr>i_itemType = ItemType.PRODUCT, i_id = 2, i_quantity = balls\<rparr>,
         \<lparr>i_itemType = ItemType.MENU, i_id = 1, i_quantity = 2\<rparr>,
         \<lparr>i_itemType = ItemType.MENU, i_id = 2, i_quantity = 7\<rparr>]\<rparr>"

text \<open>
  A rental of two rackets, then completed, then cancelled; and a POS sale of two rackets,
  then cancelled.
\<close>

definition rentalOrder :: create_transaction_input where
  "rentalOrder =
     \<lparr>ct_type = TransactionType.RENTAL, ct_tableId = None, ct_customerName = Some ''Budi'',
      ct_paidAmount = 100000,
      ct_items = [\<lparr>i_itemType = ItemType.PRODUCT, i_id = 1, i_quantity = 2\<rparr>]\<rparr>"

definition afterRental :: db where
  "afterRental = snd (createTransaction 1000 rentalOrder shop)"

definition afterComplete :: db where
  "afterComplete = snd (completeTransaction 2000 0 afterRental)"

definition afterCancel :: db where
  "afterCancel = snd (cancelTransaction 0 afterComplete)"

definition posRacketOrder :: create_transaction_input where
  "posRacketOrder =
     \<lparr>ct_type = TransactionType.POS, ct_tableId = None, ct_customerName = Some ''Budi'',
      ct_paidAmount = 100000,
      ct_items = [\<lparr>i_itemType = ItemType.PRODUCT, i_id = 1, i_quantity = 2\<rparr>]\<rparr>"

definition afterPosRacket :: db where
  "afterPosRacket = snd (createTransaction 1000 posRacketOrder shop)"

definition afterPosRacketCancel :: db where
  "afterPosRacketCancel = snd (cancelTransaction 0 afterPosRacket)"

text \<open>
  Two bookings overlap as half-open intervals; they clash when they are on the same court,
  neither is CANCELLED, and they overlap. \<open>noOverlap\<close>: no two bookings at different
  positions of the list clash.
\<close>

definition overlap :: "booking \<Rightarrow> booking \<Rightarrow> bool" where
  "overlap a b \<longleftrightarrow> b_startTime a < b_endTime b \<and> b_endTime a > b_startTime b"

definition clash :: "booking \<Rightarrow> booking \<Rightarrow> bool" where
  "clash a b \<longleftrightarrow>
     b_courtId a = b_courtId b \<and>
     b_bookingStatus a \<noteq> BookingStatus.CANCELLED \<and>
     b_bookingStatus b \<noteq> BookingStatus.CANCELLED \<and>
     overlap a b"

fun noOverlap :: "booking list \<Rightarrow> bool" where
  "noOverlap [] = True"
| "noOverlap (b # bs) = ((\<forall>e\<in>set bs. \<not> clash b e) \<and> noOverlap bs)"

text \<open>
  Every booking is on a court that exists and is ACTIVE: true of a store without bookings, and
  kept by createBooking, which books ACTIVE courts only and changes no court.
\<close>

definition bookedCourtsActive :: "db \<Rightarrow> bool" where
  "bookedCourtsActive s \<longleftrightarrow>
     (\<forall>b\<in>set (bookings s).
        case courts s (b_courtId b) of
          None \<Rightarrow> False
        | Some court \<Rightarrow> c_status court = CourtStatus.ACTIVE)"

text \<open>
  A request for court 1 from \<open>fromHour\<close> to \<open>toHour\<close> o'clock of day 0, and the stores
  after booking 10-12, after cancelling that booking, and after booking 11-13 then.
\<close>

definition slot :: "int \<Rightarrow> int \<Rightarrow> PaymentStatus option \<Rightarrow> money option \<Rightarrow> create_booking_input" where
  "slot fromHour toHour label paid =
     \<lparr>cb_courtId = 1, cb_customerName = ''Citra'', cb_customerPhone = ''0812000111'',
      cb_startTime = fromHour * 3600000, cb_endTime = toHour * 3600000,
      cb_paymentStatus = label, cb_paidAmount = paid\<rparr>"

definition morningBooked :: db where
  "morningBooked = snd (createBooking 1000 (slot 10 12 None (Some 200000)) shop)"

definition morningCancelled :: db where
  "morningCancelled = snd (cancelBooking 0 morningBooked)"

definition rebooked :: db where
  "rebooked = snd (createBooking 2000 (slot 11 13 None None) morningCancelled)"


text \<open>
  The transition table of the order-request workflow, as the specification words it.
\<close>

fun legalTransition :: "OrderRequestStatus \<Rightarrow> OrderRequestStatus \<Rightarrow> bool" where
  "legalTransition OrderRequestStatus.PENDING new =
     (new = OrderRequestStatus.APPROVED \<or> new = OrderRequestStatus.REJECTED \<or>
      new = OrderRequestStatus.CANCELLED)"
| "legalTransition OrderRequestStatus.APPROVED new =
     (new = OrderRequestStatus.PREPARING \<or> new = OrderRequestStatus.CANCELLED)"
| "legalTransition OrderRequestStatus.PREPARING new =
     (new = OrderRequestStatus.SERVED \<or> new = OrderRequestStatus.CANCELLED)"
| "legalTransition OrderRequestStatus.SERVED new = False"
| "legalTransition OrderRequestStatus.REJECTED new = False"
| "legalTransition OrderRequestStatus.CANCELLED new = False"


text \<open>
  The example store with three order requests: two being prepared (two teas and two waters;
  four teas, more than the three in stock) and one served.
\<close>

definition cafe :: db where
  "cafe = shop
     \<lparr>orderRequests :=
        [1 \<mapsto> \<lparr>or_tableId = 1, or_customerName = ''Dewi'', or_totalAmount = 26000,
                or_status = OrderRequestStatus.PREPARING, or_approvedBy = Some 7,
                or_approvedAt = Some 500, or_rejectedReason = None, or_transactionId = None\<rparr>,
         2 \<mapsto> \<lparr>or_tableId = 1, or_customerName = ''Eko'', or_totalAmount = 32000,
                or_status = OrderRequestStatus.PREPARING, or_approvedBy = Some 7,
                or_approvedAt = Some 600, or_rejectedReason = None, or_transactionId = None\<rparr>,
         3 \<mapsto> \<lparr>or_tableId = 1, or_customerName = ''Fani'', or_totalAmount = 8000,
                or_status = OrderRequestStatus.SERVED, or_approvedBy = Some 7,
                or_approvedAt = Some 700, or_rejectedReason = None, or_transactionId = None\<rparr>],
      orderRequestItems :=
        [\<lparr>ori_orderRequestId = 1, ori_menuId = 1, ori_quantity = 2, ori_unitPrice = 8000,
          ori_subtotal = 16000\<rparr>,
         \<lparr>ori_orderRequestId = 1, ori_menuId = 2, ori_quantity = 2, ori_unitPrice = 5000,
          ori_subtotal = 10000\<rparr>,
         \<lparr>ori_orderRequestId = 2, ori_menuId = 1, ori_quantity = 4, ori_unitPrice = 8000,
          ori_subtotal = 32000\<rparr>,
         \<lparr>ori_orderRequestId = 3, ori_menuId = 1, ori_quantity = 1, ori_unitPrice = 8000,
          ori_subtotal = 8000\<rparr>]\<rparr>"

definition request :: "OrderRequestStatus \<Rightarrow> update_status_input" where
  "request st = \<lparr>us_status = st, us_rejectedReason = None\<rparr>"


section \<open>Properties\<close>

subsection \<open>The item loop of createTransaction\<close>

lemma processItems_append:
  "processItems ty (xs @ ys) st =
     (case processItems ty xs st of Inl e \<Rightarrow> Inl e | Inr st' \<Rightarrow> processItems ty ys st')"
  by (induction xs arbitrary: st) (auto split: sum.splits)

lemma processItem_products:
  assumes "processItem ty item st = Inr st'"
  shows "products (ls_tx st') pid =
           map_option (\<lambda>p. p\<lparr>p_stock := p_stock p -
               (if i_itemType item = ItemType.PRODUCT \<and> i_id item = pid \<and>
                   (p_type p = ProductType.SELL \<or> ty = TransactionType.RENTAL)
                then i_quantity item else 0)\<rparr>)
             (products (ls_tx st) pid)"
proof (cases "products (ls_tx st) pid")
  case None
  with assms show ?thesis
    by (auto simp: processItem_def processProduct_def processMenu_def pushMenuItem_def
        updateById_def Let_def split: option.splits if_splits)
next
  case (Some p)
  with assms show ?thesis
    by (auto simp: processItem_def processProduct_def processMenu_def pushMenuItem_def
        updateById_def Let_def split: option.splits if_splits)
qed

lemma processItem_menus:
  assumes "processItem ty item st = Inr st'"
  shows "menus (ls_tx st') mid =
           map_option (\<lambda>m. m\<lparr>m_stock := map_option (\<lambda>k. k -
               (if i_itemType item = ItemType.MENU \<and> i_id item = mid
                then i_quantity item else 0)) (m_stock m)\<rparr>)
             (menus (ls_tx st) mid)"
proof (cases "menus (ls_tx st) mid")
  case None
  with assms show ?thesis
    by (auto simp: processItem_def processProduct_def processMenu_def pushMenuItem_def
        updateById_def Let_def split: option.splits if_splits)
next
  case (Some m)
  with assms show ?thesis
    by (auto simp: processItem_def processProduct_def processMenu_def pushMenuItem_def
        updateById_def Let_def option.map_ident split: option.splits if_splits)
qed

lemma processItems_products:
  "processItems ty items st = Inr st' \<Longrightarrow>
     products (ls_tx st') pid =
       map_option (\<lambda>p. p\<lparr>p_stock := p_stock p -
           (if p_type p = ProductType.SELL \<or> ty = TransactionType.RENTAL
            then productDemand pid items else 0)\<rparr>)
         (products (ls_tx st) pid)"
proof (induction items arbitrary: st)
  case Nil
  then show ?case by (cases "products (ls_tx st) pid") auto
next
  case (Cons item items)
  from Cons.prems obtain st1 where
    step: "processItem ty item st = Inr st1" and rest: "processItems ty items st1 = Inr st'"
    by (auto split: sum.splits)
  show ?case
    unfolding Cons.IH [OF rest] processItem_products [OF step]
    by (cases "products (ls_tx st) pid") auto
qed

lemma processItems_menus:
  "processItems ty items st = Inr st' \<Longrightarrow>
     menus (ls_tx st') mid =
       map_option (\<lambda>m. m\<lparr>m_stock := map_option (\<lambda>k. k - menuDemand mid items) (m_stock m)\<rparr>)
         (menus (ls_tx st) mid)"
proof (induction items arbitrary: st)
  case Nil
  then show ?case by (cases "menus (ls_tx st) mid") (auto simp: option.map_ident)
next
  case (Cons item items)
  from Cons.prems obtain st1 where
    step: "processItem ty item st = Inr st1" and rest: "processItems ty items st1 = Inr st'"
    by (auto split: sum.splits)
  show ?case
    unfolding Cons.IH [OF rest] processItem_menus [OF step]
    by (cases "menus (ls_tx st) mid") (auto simp: option.map_comp comp_def diff_diff_eq)
qed





subsection \<open>createTransaction as a whole\<close>

lemma createTransaction_loop_error:
  assumes "createTransactionSchema body" and "validateTable (ct_tableId body) s = None"
    and "processItems (ct_type body) (ct_items body) (initialLoopState s) = Inl e"
  shows "createTransaction now body s = (Inl e, s)"
  using assms by (simp add: createTransaction_def db_transaction_def createTransactionBody_def)

lemma createTransaction_success:
  assumes "fst (createTransaction now body s) = Inr r"
  shows "\<exists>st. createTransactionSchema body \<and> validateTable (ct_tableId body) s = None \<and>
           processItems (ct_type body) (ct_items body) (initialLoopState s) = Inr st \<and>
           0 \<le> ct_paidAmount body - ls_totalAmount st \<and>
           snd (fst r) = \<lparr>t_invoiceNumber = generateInvoiceNumber now s, t_type = ct_type body,
                   t_tableId = ct_tableId body, t_customerName = orNull (ct_customerName body),
                   t_totalAmount = ls_totalAmount st, t_paidAmount = ct_paidAmount body,
                   t_changeAmount = ct_paidAmount body - ls_totalAmount st,
                   t_status = TransactionStatus.PAID, t_createdAt = now\<rparr> \<and>
           snd r = map (toTransactionItem (fst (fst r))) (ls_processedItems st) \<and>
           products (snd (createTransaction now body s)) = products (ls_tx st) \<and>
           menus (snd (createTransaction now body s)) = menus (ls_tx st)"
  using assms
  by (auto simp: createTransaction_def db_transaction_def createTransactionBody_def Let_def
        split: option.splits sum.splits if_splits)

lemmas shop_eval =
  createTransaction_def createTransactionSchema_def transactionItemSchema_def
  validateTable_def db_transaction_def createTransactionBody_def initialLoopState_def
  processItem_def processProduct_def processMenu_def pushMenuItem_def updateById_def
  toTransactionItem_def toSellRecord_def toRentRecord_def occupyTable_def orNull_def
  generateInvoiceNumber_def msPerDay_def shop_def posOrder_def Let_def

subsection \<open>C3: a failed createTransaction changes nothing\<close>

text \<open>
  Claim C3 (a failed createTransaction changes nothing). Whatever the error of a call of
  createTransaction (validation, table not found or inactive, item not found or inactive,
  insufficient stock, insufficient payment), the store after the call is the store before
  it: no stock is changed, no transaction, item, sell or rent record is added and no table
  is occupied.
\<close>

theorem createTransaction_failure_rolls_back:
  "fst (createTransaction now body s) = Inl e \<longrightarrow> snd (createTransaction now body s) = s"
  by (auto simp: createTransaction_def db_transaction_def
        split: option.splits sum.splits prod.splits if_splits)

text \<open>
  An underpaid order on the example store is refused after its stock was already taken in
  the working copy, and the store is unchanged.
\<close>

theorem createTransaction_failure_rolls_back_witness:
  "fst (createTransaction 1000 (posOrder 2000 4) shop) = Inl InsufficientPayment \<and>
   snd (createTransaction 1000 (posOrder 2000 4) shop) = shop \<and>
   products (snd (createTransaction 1000 (posOrder 2000 4) shop)) 2 = products shop 2"
proof -
  have h: "fst (createTransaction 1000 (posOrder 2000 4) shop) = Inl InsufficientPayment"
    by (simp add: shop_eval)
  from createTransaction_failure_rolls_back [of 1000 "posOrder 2000 4" shop InsufficientPayment] h
  have "snd (createTransaction 1000 (posOrder 2000 4) shop) = shop" by blast
  with h show ?thesis by simp
qed

subsection \<open>C1: the stock rule\<close>

text \<open>
  Claim C1 (stock rule of createTransaction). Take a call that passed validation and the
  table check, and an item of it whose turn has come: the items before it were processed and
  left the working copy \<open>st\<close>. A PRODUCT item whose product is of type SELL, or
  any PRODUCT item of a RENTAL transaction, with less stock than the quantity asked makes
  the call fail with the insufficient-stock error carrying the product's name and its stock,
  and the store is left as it was; otherwise the product's stock in the working copy goes
  down by the quantity. A MENU item whose menu has a stock follows the same check and
  decrement; a MENU item whose menu has no stock is never refused for stock and no menu
  changes. When the call succeeds, the committed stock of every product is its old stock
  less the quantities of all PRODUCT items naming it (nothing when the product is of type
  RENT and the transaction is not a RENTAL), and the stock of every menu that has one is its
  old stock less the quantities of all MENU items naming it.
\<close>

theorem createTransaction_stock_rule:
  "(createTransactionSchema body \<and> validateTable (ct_tableId body) s = None \<and>
    ct_items body = before @ item # after \<and>
    processItems (ct_type body) before (initialLoopState s) = Inr st \<longrightarrow>
      (\<forall>p. i_itemType item = ItemType.PRODUCT \<and> products (ls_tx st) (i_id item) = Some p \<and>
           p_isActive p \<and> (p_type p = ProductType.SELL \<or> ct_type body = TransactionType.RENTAL) \<longrightarrow>
           (if p_stock p < i_quantity item
            then createTransaction now body s = (Inl (InsufficientStock (p_name p) (p_stock p)), s)
            else \<exists>st'. processItem (ct_type body) item st = Inr st' \<and>
                   products (ls_tx st') (i_id item) =
                     Some (p\<lparr>p_stock := p_stock p - i_quantity item\<rparr>))) \<and>
      (\<forall>m k. i_itemType item = ItemType.MENU \<and> menus (ls_tx st) (i_id item) = Some m \<and>
           m_isActive m \<and> m_stock m = Some k \<longrightarrow>
           (if k < i_quantity item
            then createTransaction now body s = (Inl (InsufficientStock (m_name m) k), s)
            else \<exists>st'. processItem (ct_type body) item st = Inr st' \<and>
                   menus (ls_tx st') (i_id item) =
                     Some (m\<lparr>m_stock := Some (k - i_quantity item)\<rparr>))) \<and>
      (\<forall>m. i_itemType item = ItemType.MENU \<and> menus (ls_tx st) (i_id item) = Some m \<and>
           m_isActive m \<and> m_stock m = None \<longrightarrow>
           (\<exists>st'. processItem (ct_type body) item st = Inr st' \<and>
                  menus (ls_tx st') = menus (ls_tx st)))) \<and>
   (fst (createTransaction now body s) = Inr r \<longrightarrow>
      (\<forall>k. products (snd (createTransaction now body s)) k =
             map_option (\<lambda>p. p\<lparr>p_stock := p_stock p -
                 (if p_type p = ProductType.SELL \<or> ct_type body = TransactionType.RENTAL
                  then productDemand k (ct_items body) else 0)\<rparr>) (products s k)) \<and>
      (\<forall>k. menus (snd (createTransaction now body s)) k =
             map_option (\<lambda>m. m\<lparr>m_stock :=
                 map_option (\<lambda>stock. stock - menuDemand k (ct_items body)) (m_stock m)\<rparr>)
               (menus s k)))"
proof (intro conjI impI)
  assume a: "createTransactionSchema body \<and> validateTable (ct_tableId body) s = None \<and>
    ct_items body = before @ item # after \<and>
    processItems (ct_type body) before (initialLoopState s) = Inr st"
  have fail: "createTransaction now body s = (Inl e, s)"
    if "processItem (ct_type body) item st = Inl e" for e
    using a that
    by (intro createTransaction_loop_error) (simp_all add: processItems_append)
  show "\<forall>p. i_itemType item = ItemType.PRODUCT \<and> products (ls_tx st) (i_id item) = Some p \<and>
           p_isActive p \<and> (p_type p = ProductType.SELL \<or> ct_type body = TransactionType.RENTAL) \<longrightarrow>
           (if p_stock p < i_quantity item
            then createTransaction now body s = (Inl (InsufficientStock (p_name p) (p_stock p)), s)
            else \<exists>st'. processItem (ct_type body) item st = Inr st' \<and>
                   products (ls_tx st') (i_id item) =
                     Some (p\<lparr>p_stock := p_stock p - i_quantity item\<rparr>))"
  proof (intro allI impI)
    fix p
    assume p: "i_itemType item = ItemType.PRODUCT \<and> products (ls_tx st) (i_id item) = Some p \<and>
           p_isActive p \<and> (p_type p = ProductType.SELL \<or> ct_type body = TransactionType.RENTAL)"
    show "if p_stock p < i_quantity item
            then createTransaction now body s = (Inl (InsufficientStock (p_name p) (p_stock p)), s)
            else \<exists>st'. processItem (ct_type body) item st = Inr st' \<and>
                   products (ls_tx st') (i_id item) =
                     Some (p\<lparr>p_stock := p_stock p - i_quantity item\<rparr>)"
    proof (cases "p_stock p < i_quantity item")
      case True
      with p have "processItem (ct_type body) item st =
          Inl (InsufficientStock (p_name p) (p_stock p))"
        by (simp add: processItem_def processProduct_def)
      from fail [OF this] True show ?thesis by simp
    next
      case False
      with p obtain st' where st': "processItem (ct_type body) item st = Inr st'"
        by (auto simp: processItem_def processProduct_def Let_def)
      from processItem_products [OF st', of "i_id item"] p False st' show ?thesis
        by auto
    qed
  qed
  show "\<forall>m k. i_itemType item = ItemType.MENU \<and> menus (ls_tx st) (i_id item) = Some m \<and>
           m_isActive m \<and> m_stock m = Some k \<longrightarrow>
           (if k < i_quantity item
            then createTransaction now body s = (Inl (InsufficientStock (m_name m) k), s)
            else \<exists>st'. processItem (ct_type body) item st = Inr st' \<and>
                   menus (ls_tx st') (i_id item) =
                     Some (m\<lparr>m_stock := Some (k - i_quantity item)\<rparr>))"
  proof (intro allI impI)
    fix m k
    assume m: "i_itemType item = ItemType.MENU \<and> menus (ls_tx st) (i_id item) = Some m \<and>
           m_isActive m \<and> m_stock m = Some k"
    show "if k < i_quantity item
            then createTransaction now body s = (Inl (InsufficientStock (m_name m) k), s)
            else \<exists>st'. processItem (ct_type body) item st = Inr st' \<and>
                   menus (ls_tx st') (i_id item) =
                     Some (m\<lparr>m_stock := Some (k - i_quantity item)\<rparr>)"
    proof (cases "k < i_quantity item")
      case True
      with m have "processItem (ct_type body) item st = Inl (InsufficientStock (m_name m) k)"
        by (simp add: processItem_def processMenu_def)
      from fail [OF this] True show ?thesis by simp
    next
      case False
      with m obtain st' where st': "processItem (ct_type body) item st = Inr st'"
        by (auto simp: processItem_def processMenu_def)
      from processItem_menus [OF st', of "i_id item"] m False st' show ?thesis
        by auto
    qed
  qed
  show "\<forall>m. i_itemType item = ItemType.MENU \<and> menus (ls_tx st) (i_id item) = Some m \<and>
           m_isActive m \<and> m_stock m = None \<longrightarrow>
           (\<exists>st'. processItem (ct_type body) item st = Inr st' \<and>
                  menus (ls_tx st') = menus (ls_tx st))"
    by (auto simp: processItem_def processMenu_def pushMenuItem_def Let_def)
next
  assume "fst (createTransaction now body s) = Inr r"
  from createTransaction_success [OF this] obtain st where
    st: "processItems (ct_type body) (ct_items body) (initialLoopState s) = Inr st"
      "products (snd (createTransaction now body s)) = products (ls_tx st)"
      "menus (snd (createTransaction now body s)) = menus (ls_tx st)"
    by auto
  show "\<forall>k. products (snd (createTransaction now body s)) k =
             map_option (\<lambda>p. p\<lparr>p_stock := p_stock p -
                 (if p_type p = ProductType.SELL \<or> ct_type body = TransactionType.RENTAL
                  then productDemand k (ct_items body) else 0)\<rparr>) (products s k)"
    using processItems_products [OF st(1)] st(2) by (simp add: initialLoopState_def)
  show "\<forall>k. menus (snd (createTransaction now body s)) k =
             map_option (\<lambda>m. m\<lparr>m_stock :=
                 map_option (\<lambda>stock. stock - menuDemand k (ct_items body)) (m_stock m)\<rparr>)
               (menus s k)"
    using processItems_menus [OF st(1)] st(3) by (simp add: initialLoopState_def)
qed

text \<open>
  The stock rule on the example store: eleven balls are refused with the name and the ten in
  stock, four balls leave six, two teas leave one, and water, which has no stock, stays
  without one.
\<close>

theorem createTransaction_stock_rule_witness:
  "createTransactionSchema (posOrder 200000 4) \<and>
   validateTable (ct_tableId (posOrder 200000 4)) shop = None \<and>
   createTransaction 1000 (posOrder 200000 11) shop = (Inl (InsufficientStock ''Ball'' 10), shop) \<and>
   map_option p_stock (products (snd (createTransaction 1000 (posOrder 200000 4) shop)) 2) = Some 6 \<and>
   map_option m_stock (menus (snd (createTransaction 1000 (posOrder 200000 4) shop)) 1) = Some (Some 1) \<and>
   map_option m_stock (menus (snd (createTransaction 1000 (posOrder 200000 4) shop)) 2) = Some None"
proof -
  let ?ball = "\<lparr>p_name = ''Ball'', p_price = 25000, p_stock = 10,
                p_type = ProductType.SELL, p_isActive = True\<rparr>"
  have v: "createTransactionSchema (posOrder 200000 11)" "createTransactionSchema (posOrder 200000 4)"
    and t: "validateTable (ct_tableId (posOrder 200000 11)) shop = None"
      "validateTable (ct_tableId (posOrder 200000 4)) shop = None"
    by (simp_all add: createTransactionSchema_def transactionItemSchema_def validateTable_def
        posOrder_def shop_def)
  have i: "ct_items (posOrder 200000 11) =
      [] @ \<lparr>i_itemType = ItemType.PRODUCT, i_id = 2, i_quantity = 11\<rparr> #
        [\<lparr>i_itemType = ItemType.MENU, i_id = 1, i_quantity = 2\<rparr>,
         \<lparr>i_itemType = ItemType.MENU, i_id = 2, i_quantity = 7\<rparr>]"
    by (simp add: posOrder_def)
  have l: "processItems (ct_type (posOrder 200000 11)) [] (initialLoopState shop) =
      Inr (initialLoopState shop)"
    by simp
  have b: "products (ls_tx (initialLoopState shop)) 2 = Some ?ball"
    by (simp add: initialLoopState_def shop_def)
  have ok: "fst (createTransaction 1000 (posOrder 200000 4) shop) =
      Inr (projr (fst (createTransaction 1000 (posOrder 200000 4) shop)))"
    by (simp add: shop_eval)
  from createTransaction_stock_rule [of "posOrder 200000 11" shop "[]"
      "\<lparr>i_itemType = ItemType.PRODUCT, i_id = 2, i_quantity = 11\<rparr>" _
      "initialLoopState shop" 1000] v(1) t(1) i l b
  have short: "createTransaction 1000 (posOrder 200000 11) shop =
      (Inl (InsufficientStock ''Ball'' 10), shop)"
    by (auto dest!: spec [of _ ?ball])
  from createTransaction_stock_rule [of "posOrder 200000 4" shop "[]"
      "\<lparr>i_itemType = ItemType.PRODUCT, i_id = 2, i_quantity = 4\<rparr>" _
      "initialLoopState shop" 1000] ok
  have "products (snd (createTransaction 1000 (posOrder 200000 4) shop)) 2 =
          map_option (\<lambda>p. p\<lparr>p_stock := p_stock p -
                 (if p_type p = ProductType.SELL \<or>
                     ct_type (posOrder 200000 4) = TransactionType.RENTAL
                  then productDemand 2 (ct_items (posOrder 200000 4)) else 0)\<rparr>) (products shop 2)"
    and "\<forall>k. menus (snd (createTransaction 1000 (posOrder 200000 4) shop)) k =
          map_option (\<lambda>m. m\<lparr>m_stock :=
                 map_option (\<lambda>stock. stock - menuDemand k (ct_items (posOrder 200000 4))) (m_stock m)\<rparr>)
               (menus shop k)"
    by blast+
  then show ?thesis using v t short
    by (simp add: posOrder_def shop_def)
qed

subsection \<open>C4: totals and change\<close>



subsection \<open>C5: cancelling after completing\<close>

lemmas rental_eval =
  createTransaction_def createTransactionSchema_def transactionItemSchema_def
  validateTable_def db_transaction_def createTransactionBody_def initialLoopState_def
  processItem_def processProduct_def processMenu_def pushMenuItem_def updateById_def
  toTransactionItem_def toSellRecord_def toRentRecord_def occupyTable_def orNull_def
  generateInvoiceNumber_def msPerDay_def shop_def rentalOrder_def Let_def
  afterRental_def afterComplete_def afterCancel_def
  posRacketOrder_def afterPosRacket_def afterPosRacketCancel_def
  completeTransaction_def cancelTransaction_def findTransaction_def setTransactionStatus_def
  completeItem_def cancelItem_def clearTable_def

text \<open>
  Claim C5 (cancelling restores the stock the transaction took) does not hold on the code. A
  rental of two rackets out of five leaves three; completing the rental returns them, five
  again; cancelTransaction, which only refuses a transaction that is already CANCELLED, then
  adds the two once more and leaves seven. Likewise a POS transaction with two rackets, a
  product of type RENT, takes no stock, and cancelling it adds two: seven.
\<close>

theorem cancel_after_complete_restores_twice:
  "map_option p_stock (products shop 1) = Some 5 \<and>
   map t_status (transactions afterRental) = [TransactionStatus.PAID] \<and>
   map_option p_stock (products afterRental 1) = Some 3 \<and>
   fst (completeTransaction 2000 0 afterRental) = Inr 0 \<and>
   map t_status (transactions afterComplete) = [TransactionStatus.COMPLETED] \<and>
   map_option p_stock (products afterComplete 1) = Some 5 \<and>
   fst (cancelTransaction 0 afterComplete) = Inr 0 \<and>
   map t_status (transactions afterCancel) = [TransactionStatus.CANCELLED] \<and>
   map_option p_stock (products afterCancel 1) = Some 7 \<and>
   map t_status (transactions afterPosRacket) = [TransactionStatus.PAID] \<and>
   map_option p_stock (products afterPosRacket 1) = Some 5 \<and>
   fst (cancelTransaction 0 afterPosRacket) = Inr 0 \<and>
   map_option p_stock (products afterPosRacketCancel 1) = Some 7"
  by (simp add: rental_eval)

subsection \<open>C2: createBooking keeps the bookings free of overlap\<close>

lemma clash_sym: "clash a b = clash b a"
  by (auto simp: clash_def overlap_def)

lemma noOverlap_snoc:
  "noOverlap (bs @ [b]) \<longleftrightarrow> noOverlap bs \<and> (\<forall>e\<in>set bs. \<not> clash e b)"
  by (induction bs) auto

lemma noOverlap_nth:
  "noOverlap bs \<longleftrightarrow>
     (\<forall>i<length bs. \<forall>j<length bs. i \<noteq> j \<longrightarrow> \<not> clash (bs ! i) (bs ! j))"
proof (induction bs)
  case Nil
  then show ?case by simp
next
  case (Cons b bs)
  show ?case
  proof
    assume l: "noOverlap (b # bs)"
    show "\<forall>i<length (b # bs). \<forall>j<length (b # bs). i \<noteq> j \<longrightarrow> \<not> clash ((b # bs) ! i) ((b # bs) ! j)"
    proof (intro allI impI)
      fix i j assume "i < length (b # bs)" "j < length (b # bs)" "i \<noteq> j"
      with l Cons.IH show "\<not> clash ((b # bs) ! i) ((b # bs) ! j)"
        by (cases i; cases j) (auto simp: clash_sym [of _ b])
    qed
  next
    assume r: "\<forall>i<length (b # bs). \<forall>j<length (b # bs). i \<noteq> j \<longrightarrow> \<not> clash ((b # bs) ! i) ((b # bs) ! j)"
    have "\<not> clash b e" if "e \<in> set bs" for e
    proof -
      from that obtain j where "j < length bs" "bs ! j = e" by (auto simp: in_set_conv_nth)
      with r [rule_format, of 0 "Suc j"] show ?thesis by simp
    qed
    moreover have "noOverlap bs"
      unfolding Cons.IH
    proof (intro allI impI)
      fix i j assume "i < length bs" "j < length bs" "i \<noteq> j"
      with r [rule_format, of "Suc i" "Suc j"] show "\<not> clash (bs ! i) (bs ! j)" by simp
    qed
    ultimately show "noOverlap (b # bs)" by simp
  qed
qed

lemma existingOverlaps_None:
  "existingOverlaps courtId start end s = None \<longleftrightarrow>
     \<not> (\<exists>e\<in>set (bookings s). b_courtId e = courtId \<and>
           b_bookingStatus e \<noteq> BookingStatus.CANCELLED \<and>
           b_startTime e < end \<and> b_endTime e > start)"
  by (auto simp: existingOverlaps_def find_None_iff)

lemma createBooking_bookings:
  "bookings (snd (createBooking now body s)) = bookings s \<or>
   (\<exists>b. bookings (snd (createBooking now body s)) = bookings s @ [b] \<and>
        b_courtId b = cb_courtId body \<and> b_startTime b = cb_startTime body \<and>
        b_endTime b = cb_endTime body \<and>
        existingOverlaps (cb_courtId body) (cb_startTime body) (cb_endTime body) s = None)"
  by (auto simp: createBooking_def db_transaction_def Let_def split: option.splits)

lemma createBooking_noOverlap:
  assumes "noOverlap (bookings s)"
  shows "noOverlap (bookings (snd (createBooking now body s)))"
proof -
  from createBooking_bookings [of now body s] show ?thesis
  proof
    assume "bookings (snd (createBooking now body s)) = bookings s"
    with assms show ?thesis by simp
  next
    assume "\<exists>b. bookings (snd (createBooking now body s)) = bookings s @ [b] \<and>
        b_courtId b = cb_courtId body \<and> b_startTime b = cb_startTime body \<and>
        b_endTime b = cb_endTime body \<and>
        existingOverlaps (cb_courtId body) (cb_startTime body) (cb_endTime body) s = None"
    then obtain b where b: "bookings (snd (createBooking now body s)) = bookings s @ [b]"
      "b_courtId b = cb_courtId body" "b_startTime b = cb_startTime body"
      "b_endTime b = cb_endTime body"
      and free: "existingOverlaps (cb_courtId body) (cb_startTime body) (cb_endTime body) s = None"
      by blast
    from free b(2-4) have "\<forall>e\<in>set (bookings s). \<not> clash e b"
      unfolding existingOverlaps_None by (auto simp: clash_def overlap_def)
    with assms b(1) show ?thesis by (simp add: noOverlap_snoc)
  qed
qed

lemma createBookings_noOverlap:
  "noOverlap (bookings s) \<Longrightarrow> noOverlap (bookings (createBookings calls s))"
  by (induction calls arbitrary: s) (auto intro: createBooking_noOverlap)

lemma createBooking_courts:
  "courts (snd (createBooking now body s)) = courts s"
  by (auto simp: createBooking_def db_transaction_def Let_def split: option.splits)

lemma createBooking_bookedCourtsActive:
  assumes "bookedCourtsActive s"
  shows "bookedCourtsActive (snd (createBooking now body s))"
  using assms
  by (auto simp: bookedCourtsActive_def createBooking_def db_transaction_def Let_def
        split: option.splits)

lemma createBookings_bookedCourtsActive:
  "bookedCourtsActive s \<Longrightarrow> bookedCourtsActive (createBookings calls s)"
  by (induction calls arbitrary: s) (auto intro: createBooking_bookedCourtsActive)

lemma createBooking_conflict_iff:
  assumes "createBookingSchema body" and "bookedCourtsActive s"
  shows "fst (createBooking now body s) = Inl TimeSlotAlreadyBooked \<longleftrightarrow>
         (\<exists>e\<in>set (bookings s).
            b_courtId e = cb_courtId body \<and> b_bookingStatus e \<noteq> BookingStatus.CANCELLED \<and>
            b_startTime e < cb_endTime body \<and> b_endTime e > cb_startTime body)"
proof
  assume "fst (createBooking now body s) = Inl TimeSlotAlreadyBooked"
  then have "existingOverlaps (cb_courtId body) (cb_startTime body) (cb_endTime body) s \<noteq> None"
    by (auto simp: createBooking_def db_transaction_def Let_def split: option.splits if_splits)
  then show "\<exists>e\<in>set (bookings s).
            b_courtId e = cb_courtId body \<and> b_bookingStatus e \<noteq> BookingStatus.CANCELLED \<and>
            b_startTime e < cb_endTime body \<and> b_endTime e > cb_startTime body"
    unfolding existingOverlaps_None by blast
next
  assume ex: "\<exists>e\<in>set (bookings s).
            b_courtId e = cb_courtId body \<and> b_bookingStatus e \<noteq> BookingStatus.CANCELLED \<and>
            b_startTime e < cb_endTime body \<and> b_endTime e > cb_startTime body"
  then obtain e where e: "e \<in> set (bookings s)" "b_courtId e = cb_courtId body" by blast
  with assms(2) obtain court where c: "courts s (cb_courtId body) = Some court"
    "c_status court = CourtStatus.ACTIVE"
    by (auto simp: bookedCourtsActive_def split: option.splits)
  from ex have "existingOverlaps (cb_courtId body) (cb_startTime body) (cb_endTime body) s \<noteq> None"
    unfolding existingOverlaps_None by blast
  with assms(1) c show "fst (createBooking now body s) = Inl TimeSlotAlreadyBooked"
    by (auto simp: createBooking_def)
qed

text \<open>
  Claim C2 (no two live bookings of a court overlap). Bookings without an overlap stay
  without one under any sequence of createBooking calls; so, starting from no bookings at
  all, after any sequence of createBooking calls no two bookings at different positions are
  on the same court, both not CANCELLED, with \<open>a.start < b.end\<close> and
  \<open>a.end > b.start\<close>. After any such sequence, createBooking answers a valid
  request with the conflict error exactly if some booking of the requested court that is not
  CANCELLED starts before the new end and ends after the new start; a booking that only
  touches the new interval is no conflict. The same holds in any store for a valid request
  on a court that exists and is ACTIVE. Whenever createBooking answers with the conflict
  error such a booking exists and the store is unchanged.
\<close>

theorem createBooking_no_overlap:
  "(noOverlap (bookings s) \<longrightarrow> noOverlap (bookings (createBookings calls s))) \<and>
   (bookings s = [] \<longrightarrow>
      (\<forall>i j. i < length (bookings (createBookings calls s)) \<and>
             j < length (bookings (createBookings calls s)) \<and> i \<noteq> j \<and>
             b_courtId (bookings (createBookings calls s) ! i) =
               b_courtId (bookings (createBookings calls s) ! j) \<and>
             b_bookingStatus (bookings (createBookings calls s) ! i) \<noteq> BookingStatus.CANCELLED \<and>
             b_bookingStatus (bookings (createBookings calls s) ! j) \<noteq> BookingStatus.CANCELLED \<longrightarrow>
             \<not> (b_startTime (bookings (createBookings calls s) ! i) <
                    b_endTime (bookings (createBookings calls s) ! j) \<and>
                  b_endTime (bookings (createBookings calls s) ! i) >
                    b_startTime (bookings (createBookings calls s) ! j)))) \<and>
   (bookings s = [] \<and> createBookingSchema body \<longrightarrow>
      (fst (createBooking now body (createBookings calls s)) = Inl TimeSlotAlreadyBooked \<longleftrightarrow>
         (\<exists>e\<in>set (bookings (createBookings calls s)).
            b_courtId e = cb_courtId body \<and> b_bookingStatus e \<noteq> BookingStatus.CANCELLED \<and>
            b_startTime e < cb_endTime body \<and> b_endTime e > cb_startTime body))) \<and>
   (createBookingSchema body \<and> courts s (cb_courtId body) = Some court \<and>
    c_status court = CourtStatus.ACTIVE \<longrightarrow>
      (fst (createBooking now body s) = Inl TimeSlotAlreadyBooked \<longleftrightarrow>
         (\<exists>e\<in>set (bookings s).
            b_courtId e = cb_courtId body \<and> b_bookingStatus e \<noteq> BookingStatus.CANCELLED \<and>
            b_startTime e < cb_endTime body \<and> b_endTime e > cb_startTime body))) \<and>
   (fst (createBooking now body s) = Inl TimeSlotAlreadyBooked \<longrightarrow>
      snd (createBooking now body s) = s \<and>
      (\<exists>e\<in>set (bookings s).
         b_courtId e = cb_courtId body \<and> b_bookingStatus e \<noteq> BookingStatus.CANCELLED \<and>
         b_startTime e < cb_endTime body \<and> b_endTime e > cb_startTime body))"
proof (intro conjI impI)
  assume "noOverlap (bookings s)"
  then show "noOverlap (bookings (createBookings calls s))" by (rule createBookings_noOverlap)
next
  assume "bookings s = []"
  then have "noOverlap (bookings (createBookings calls s))"
    by (intro createBookings_noOverlap) simp
  then show "\<forall>i j. i < length (bookings (createBookings calls s)) \<and>
             j < length (bookings (createBookings calls s)) \<and> i \<noteq> j \<and>
             b_courtId (bookings (createBookings calls s) ! i) =
               b_courtId (bookings (createBookings calls s) ! j) \<and>
             b_bookingStatus (bookings (createBookings calls s) ! i) \<noteq> BookingStatus.CANCELLED \<and>
             b_bookingStatus (bookings (createBookings calls s) ! j) \<noteq> BookingStatus.CANCELLED \<longrightarrow>
             \<not> (b_startTime (bookings (createBookings calls s) ! i) <
                    b_endTime (bookings (createBookings calls s) ! j) \<and>
                  b_endTime (bookings (createBookings calls s) ! i) >
                    b_startTime (bookings (createBookings calls s) ! j))"
    unfolding noOverlap_nth clash_def overlap_def by blast
next
  assume a: "bookings s = [] \<and> createBookingSchema body"
  then have "bookedCourtsActive s" by (simp add: bookedCourtsActive_def)
  then have "bookedCourtsActive (createBookings calls s)"
    by (rule createBookings_bookedCourtsActive)
  with a show "fst (createBooking now body (createBookings calls s)) = Inl TimeSlotAlreadyBooked \<longleftrightarrow>
         (\<exists>e\<in>set (bookings (createBookings calls s)).
            b_courtId e = cb_courtId body \<and> b_bookingStatus e \<noteq> BookingStatus.CANCELLED \<and>
            b_startTime e < cb_endTime body \<and> b_endTime e > cb_startTime body)"
    by (intro createBooking_conflict_iff) simp_all
next
  assume "createBookingSchema body \<and> courts s (cb_courtId body) = Some court \<and>
    c_status court = CourtStatus.ACTIVE"
  then show "fst (createBooking now body s) = Inl TimeSlotAlreadyBooked \<longleftrightarrow>
         (\<exists>e\<in>set (bookings s).
            b_courtId e = cb_courtId body \<and> b_bookingStatus e \<noteq> BookingStatus.CANCELLED \<and>
            b_startTime e < cb_endTime body \<and> b_endTime e > cb_startTime body)"
    using existingOverlaps_None [of "cb_courtId body" "cb_startTime body" "cb_endTime body" s]
    by (cases "existingOverlaps (cb_courtId body) (cb_startTime body) (cb_endTime body) s")
       (auto simp: createBooking_def db_transaction_def Let_def)
next
  assume c: "fst (createBooking now body s) = Inl TimeSlotAlreadyBooked"
  then show "snd (createBooking now body s) = s"
    by (auto simp: createBooking_def db_transaction_def Let_def split: option.splits if_splits)
  from c have "existingOverlaps (cb_courtId body) (cb_startTime body) (cb_endTime body) s \<noteq> None"
    by (auto simp: createBooking_def db_transaction_def Let_def split: option.splits if_splits)
  then show "\<exists>e\<in>set (bookings s).
         b_courtId e = cb_courtId body \<and> b_bookingStatus e \<noteq> BookingStatus.CANCELLED \<and>
         b_startTime e < cb_endTime body \<and> b_endTime e > cb_startTime body"
    unfolding existingOverlaps_None by blast
qed

lemmas booking_eval =
  createBooking_def createBookingSchema_def existingOverlaps_def paymentStatusOrDefault_def
  paidAmountOrDefault_def msPerHour_def db_transaction_def generateInvoiceNumber_def msPerDay_def
  slot_def shop_def Let_def

lemmas rebooked_eval =
  rebooked_def morningCancelled_def morningBooked_def
  cancelBooking_def completeBooking_def setBookingStatus_def setTransactionStatus_def

lemma morningBooked_eval:
  "bookings morningBooked =
     [\<lparr>b_courtId = 1, b_customerName = ''Citra'', b_startTime = 36000000, b_endTime = 43200000,
       b_durationHours = 2, b_pricePerHour = 100000, b_totalPrice = 200000,
       b_paymentStatus = PaymentStatus.PAID, b_bookingStatus = BookingStatus.CONFIRMED,
       b_transactionId = Some 0\<rparr>]"
  "courts morningBooked 1 =
     Some \<lparr>c_name = ''Court A'', c_status = CourtStatus.ACTIVE, c_pricePerHour = 100000\<rparr>"
  by (simp_all add: morningBooked_def booking_eval)

text \<open>
  On the example store: after 10-12 is booked, 11-13 is refused with the conflict error and
  12-13, which touches it, is not; the three calls in sequence leave no overlap.
\<close>

theorem createBooking_no_overlap_witness:
  "bookings shop = [] \<and>
   noOverlap (bookings (createBookings
      [(1000, slot 10 12 None (Some 200000)), (2000, slot 11 13 None None),
       (3000, slot 12 13 None None)] shop)) \<and>
   createBookings [(1000, slot 10 12 None (Some 200000))] shop = morningBooked \<and>
   fst (createBooking 2000 (slot 11 13 None None) morningBooked) = Inl TimeSlotAlreadyBooked \<and>
   snd (createBooking 2000 (slot 11 13 None None) morningBooked) = morningBooked \<and>
   fst (createBooking 3000 (slot 12 13 None None) morningBooked) \<noteq> Inl TimeSlotAlreadyBooked"
proof -
  let ?court = "\<lparr>c_name = ''Court A'', c_status = CourtStatus.ACTIVE, c_pricePerHour = 100000\<rparr>"
  have e: "bookings shop = []" by (simp add: shop_def)
  have n: "noOverlap (bookings shop)" by (simp add: shop_def)
  have m: "createBookings [(1000, slot 10 12 None (Some 200000))] shop = morningBooked"
    by (simp add: morningBooked_def)
  have v: "createBookingSchema (slot 11 13 None None)" "createBookingSchema (slot 12 13 None None)"
    by (simp_all add: createBookingSchema_def slot_def msPerHour_def)
  have c: "courts morningBooked (cb_courtId (slot 12 13 None None)) = Some ?court"
    by (simp add: morningBooked_def booking_eval)
  have busy: "\<exists>e\<in>set (bookings morningBooked).
      b_courtId e = cb_courtId (slot 11 13 None None) \<and>
      b_bookingStatus e \<noteq> BookingStatus.CANCELLED \<and>
      b_startTime e < cb_endTime (slot 11 13 None None) \<and>
      b_endTime e > cb_startTime (slot 11 13 None None)"
    by (simp add: morningBooked_eval slot_def)
  have free: "\<not> (\<exists>e\<in>set (bookings morningBooked).
      b_courtId e = cb_courtId (slot 12 13 None None) \<and>
      b_bookingStatus e \<noteq> BookingStatus.CANCELLED \<and>
      b_startTime e < cb_endTime (slot 12 13 None None) \<and>
      b_endTime e > cb_startTime (slot 12 13 None None))"
    by (simp add: morningBooked_eval slot_def)
  note t1 = createBooking_no_overlap [where s = shop and now = 2000
      and calls = "[(1000, slot 10 12 None (Some 200000)), (2000, slot 11 13 None None),
         (3000, slot 12 13 None None)]"]
  note t2 = createBooking_no_overlap [where s = shop and now = 2000
      and calls = "[(1000, slot 10 12 None (Some 200000))]" and body = "slot 11 13 None None",
      unfolded m]
  note t3 = createBooking_no_overlap [where s = morningBooked and now = 3000 and calls = "[]"
      and body = "slot 12 13 None None" and court = ?court]
  note t4 = createBooking_no_overlap [where s = morningBooked and now = 2000 and calls = "[]"
      and body = "slot 11 13 None None"]
  from t1 n have "noOverlap (bookings (createBookings
      [(1000, slot 10 12 None (Some 200000)), (2000, slot 11 13 None None),
       (3000, slot 12 13 None None)] shop))"
    by blast
  moreover from t2 e v(1) busy
  have r: "fst (createBooking 2000 (slot 11 13 None None) morningBooked) = Inl TimeSlotAlreadyBooked"
    by blast
  moreover from t4 r
  have "snd (createBooking 2000 (slot 11 13 None None) morningBooked) = morningBooked"
    by blast
  moreover from t3 v(2) c free
  have "fst (createBooking 3000 (slot 12 13 None None) morningBooked) \<noteq> Inl TimeSlotAlreadyBooked"
    by (simp add: slot_def)
  ultimately show ?thesis using e m by simp
qed

subsection \<open>C8: price and statuses of a booking\<close>




subsection \<open>C10: completeBooking revives a cancelled booking\<close>

text \<open>
  Claim C10 (completeBooking does not keep the bookings free of overlap). completeBooking
  sets the status of any booking that exists to COMPLETED, whatever its status was. On the
  example store: book 10-12, cancel it, book 11-13 on the same court, which is accepted; the
  bookings are free of overlap and the first is CANCELLED. Completing the first then leaves
  two bookings of the court, neither CANCELLED, that overlap.
\<close>

theorem completeBooking_breaks_no_overlap:
  "(k < length (bookings s) \<longrightarrow>
      fst (completeBooking k s) =
        Inr ((bookings s ! k)\<lparr>b_bookingStatus := BookingStatus.COMPLETED\<rparr>) \<and>
      bookings (snd (completeBooking k s)) =
        (bookings s)[k := (bookings s ! k)\<lparr>b_bookingStatus := BookingStatus.COMPLETED\<rparr>]) \<and>
   fst (createBooking 1000 (slot 10 12 None (Some 200000)) shop) =
     Inr (projr (fst (createBooking 1000 (slot 10 12 None (Some 200000)) shop))) \<and>
   fst (cancelBooking 0 morningBooked) = Inr 0 \<and>
   fst (createBooking 2000 (slot 11 13 None None) morningCancelled) =
     Inr (projr (fst (createBooking 2000 (slot 11 13 None None) morningCancelled))) \<and>
   noOverlap (bookings rebooked) \<and>
   b_bookingStatus (bookings rebooked ! 0) = BookingStatus.CANCELLED \<and>
   fst (completeBooking 0 rebooked) =
     Inr ((bookings rebooked ! 0)\<lparr>b_bookingStatus := BookingStatus.COMPLETED\<rparr>) \<and>
   \<not> noOverlap (bookings (snd (completeBooking 0 rebooked))) \<and>
   clash (bookings (snd (completeBooking 0 rebooked)) ! 0)
         (bookings (snd (completeBooking 0 rebooked)) ! 1)"
proof (intro conjI impI)
  assume "k < length (bookings s)"
  then show "fst (completeBooking k s) =
        Inr ((bookings s ! k)\<lparr>b_bookingStatus := BookingStatus.COMPLETED\<rparr>)"
    and "bookings (snd (completeBooking k s)) =
        (bookings s)[k := (bookings s ! k)\<lparr>b_bookingStatus := BookingStatus.COMPLETED\<rparr>]"
    by (simp_all add: completeBooking_def setBookingStatus_def Let_def)
qed (simp_all add: rebooked_eval booking_eval clash_def overlap_def)

text \<open>
  The cancelled booking at position 0 exists, completeBooking turns it to COMPLETED, and the
  bookings, free of overlap before, are not afterwards.
\<close>

theorem completeBooking_breaks_no_overlap_witness:
  "0 < length (bookings rebooked) \<and>
   b_bookingStatus (bookings rebooked ! 0) = BookingStatus.CANCELLED \<and>
   b_bookingStatus (bookings (snd (completeBooking 0 rebooked)) ! 0) = BookingStatus.COMPLETED \<and>
   noOverlap (bookings rebooked) \<and>
   \<not> noOverlap (bookings (snd (completeBooking 0 rebooked)))"
proof -
  have l: "0 < length (bookings rebooked)"
    by (simp add: rebooked_eval booking_eval)
  from completeBooking_breaks_no_overlap [of 0 rebooked] l
  have "bookings (snd (completeBooking 0 rebooked)) =
        (bookings rebooked)[0 := (bookings rebooked ! 0)\<lparr>b_bookingStatus := BookingStatus.COMPLETED\<rparr>]"
    and "b_bookingStatus (bookings rebooked ! 0) = BookingStatus.CANCELLED"
    and "noOverlap (bookings rebooked)"
    and "\<not> noOverlap (bookings (snd (completeBooking 0 rebooked)))"
    by blast+
  with l show ?thesis by simp
qed

subsection \<open>C6: transitions of an order request\<close>

lemma validTransitions_legal:
  "new \<in> set (validTransitions cur) \<longleftrightarrow> legalTransition cur new"
  by (cases cur) auto

lemma updateOrderRequestStatus_error_unchanged:
  "fst (updateOrderRequestStatus now user k body s) = Inl e \<Longrightarrow>
     snd (updateOrderRequestStatus now user k body s) = s"
  by (auto simp: updateOrderRequestStatus_def db_transaction_def Let_def
        split: option.splits sum.splits prod.splits if_splits)

text \<open>
  Claim C6, as the code has it. For an authenticated caller and an order request that
  exists: updateOrderRequestStatus succeeds only for a transition of the table PENDING to
  APPROVED, REJECTED or CANCELLED, APPROVED to PREPARING or CANCELLED, PREPARING to SERVED
  or CANCELLED (from SERVED, REJECTED and CANCELLED there is none); a transition of the
  table other than to SERVED always succeeds and sets the status. Any other request is
  rejected and leaves the store as it was: with the error naming the current and the
  requested status when the requested status is one of APPROVED, PREPARING, SERVED,
  REJECTED, CANCELLED, and with the validation error when it is PENDING, which the request
  schema does not admit. Whatever the error, the order request is unchanged.
\<close>

theorem updateOrderRequestStatus_transitions:
  "user = Some userId \<and> orderRequests s k = Some existing \<longrightarrow>
     ((\<exists>r. fst (updateOrderRequestStatus now user k body s) = Inr r) \<longrightarrow>
        legalTransition (or_status existing) (us_status body)) \<and>
     (\<not> legalTransition (or_status existing) (us_status body) \<longrightarrow>
        updateOrderRequestStatus now user k body s =
          (if us_status body = OrderRequestStatus.PENDING then Inl ValidationError
           else Inl (CannotTransition (or_status existing) (us_status body)), s)) \<and>
     (legalTransition (or_status existing) (us_status body) \<and>
      us_status body \<noteq> OrderRequestStatus.SERVED \<longrightarrow>
        (\<exists>r. fst (updateOrderRequestStatus now user k body s) = Inr r) \<and>
        map_option or_status (orderRequests (snd (updateOrderRequestStatus now user k body s)) k) =
          Some (us_status body)) \<and>
     (\<forall>e. fst (updateOrderRequestStatus now user k body s) = Inl e \<longrightarrow>
        orderRequests (snd (updateOrderRequestStatus now user k body s)) k = Some existing)"
proof (intro impI conjI allI)
  assume a: "user = Some userId \<and> orderRequests s k = Some existing"
  show "legalTransition (or_status existing) (us_status body)"
    if "\<exists>r. fst (updateOrderRequestStatus now user k body s) = Inr r"
    using that a
    by (auto simp: updateOrderRequestStatus_def validTransitions_legal Let_def split: if_splits)
  show "updateOrderRequestStatus now user k body s =
          (if us_status body = OrderRequestStatus.PENDING then Inl ValidationError
           else Inl (CannotTransition (or_status existing) (us_status body)), s)"
    if "\<not> legalTransition (or_status existing) (us_status body)"
    using that a
    by (cases "us_status body")
       (auto simp: updateOrderRequestStatus_def updateOrderRequestStatusSchema_def
          validTransitions_legal Let_def)
  show "\<exists>r. fst (updateOrderRequestStatus now user k body s) = Inr r"
    if "legalTransition (or_status existing) (us_status body) \<and>
      us_status body \<noteq> OrderRequestStatus.SERVED"
    using that a
    by (cases "or_status existing")
       (auto simp: updateOrderRequestStatus_def updateOrderRequestStatusSchema_def
          updateStatusBody_def db_transaction_def Let_def)
  show "map_option or_status (orderRequests (snd (updateOrderRequestStatus now user k body s)) k) =
          Some (us_status body)"
    if "legalTransition (or_status existing) (us_status body) \<and>
      us_status body \<noteq> OrderRequestStatus.SERVED"
    using that a
    by (cases "or_status existing")
       (auto simp: updateOrderRequestStatus_def updateOrderRequestStatusSchema_def
          updateStatusBody_def db_transaction_def updateById_def updateValues_def Let_def)
  show "orderRequests (snd (updateOrderRequestStatus now user k body s)) k = Some existing"
    if "fst (updateOrderRequestStatus now user k body s) = Inl e" for e
    using updateOrderRequestStatus_error_unchanged [OF that] a by simp
qed

text \<open>
  On the example store: SERVED to APPROVED is refused with the error naming both statuses
  and nothing changes; PREPARING to CANCELLED is accepted.
\<close>

theorem updateOrderRequestStatus_transitions_witness:
  "orderRequests cafe 3 \<noteq> None \<and>
   updateOrderRequestStatus 3000 (Some 7) 3 (request OrderRequestStatus.APPROVED) cafe =
     (Inl (CannotTransition OrderRequestStatus.SERVED OrderRequestStatus.APPROVED), cafe) \<and>
   map_option or_status (orderRequests
     (snd (updateOrderRequestStatus 3000 (Some 7) 1 (request OrderRequestStatus.CANCELLED) cafe)) 1) =
     Some OrderRequestStatus.CANCELLED"
proof -
  let ?served = "\<lparr>or_tableId = 1, or_customerName = ''Fani'', or_totalAmount = 8000,
                or_status = OrderRequestStatus.SERVED, or_approvedBy = Some 7,
                or_approvedAt = Some 700, or_rejectedReason = None, or_transactionId = None\<rparr>"
  let ?preparing = "\<lparr>or_tableId = 1, or_customerName = ''Dewi'', or_totalAmount = 26000,
                or_status = OrderRequestStatus.PREPARING, or_approvedBy = Some 7,
                or_approvedAt = Some 500, or_rejectedReason = None, or_transactionId = None\<rparr>"
  have o3: "orderRequests cafe 3 = Some ?served" and o1: "orderRequests cafe 1 = Some ?preparing"
    by (simp_all add: cafe_def)
  have n: "\<not> legalTransition (or_status ?served) (us_status (request OrderRequestStatus.APPROVED))"
    and l: "legalTransition (or_status ?preparing) (us_status (request OrderRequestStatus.CANCELLED))"
      "us_status (request OrderRequestStatus.CANCELLED) \<noteq> OrderRequestStatus.SERVED"
    by (simp_all add: request_def)
  from updateOrderRequestStatus_transitions [of "Some 7" 7 cafe 3 ?served 3000
      "request OrderRequestStatus.APPROVED"] o3 n
  have "updateOrderRequestStatus 3000 (Some 7) 3 (request OrderRequestStatus.APPROVED) cafe =
     (Inl (CannotTransition OrderRequestStatus.SERVED OrderRequestStatus.APPROVED), cafe)"
    by (simp add: request_def)
  moreover from updateOrderRequestStatus_transitions [of "Some 7" 7 cafe 1 ?preparing 3000
      "request OrderRequestStatus.CANCELLED"] o1 l
  have "map_option or_status (orderRequests
     (snd (updateOrderRequestStatus 3000 (Some 7) 1 (request OrderRequestStatus.CANCELLED) cafe)) 1) =
     Some OrderRequestStatus.CANCELLED"
    by (simp add: request_def)
  ultimately show ?thesis using o3 by simp
qed

text \<open>
  Claim C6 as stated fails: a requested transition outside the table is not always rejected
  with the error naming the attempted and the current status. Order request 3 is SERVED; the
  request to set it to PENDING (not in the table) is rejected with the validation error.
\<close>

theorem updateOrderRequestStatus_pending_counterexample:
  "map_option or_status (orderRequests cafe 3) = Some OrderRequestStatus.SERVED \<and>
   \<not> legalTransition OrderRequestStatus.SERVED OrderRequestStatus.PENDING \<and>
   updateOrderRequestStatus 3000 (Some 7) 3 (request OrderRequestStatus.PENDING) cafe =
     (Inl ValidationError, cafe) \<and>
   fst (updateOrderRequestStatus 3000 (Some 7) 3 (request OrderRequestStatus.PENDING) cafe) \<noteq>
     Inl (CannotTransition OrderRequestStatus.SERVED OrderRequestStatus.PENDING)"
  by (simp add: updateOrderRequestStatus_def updateOrderRequestStatusSchema_def request_def cafe_def)

subsection \<open>C7: serving an order request\<close>








subsection \<open>C9: inventory adjustments\<close>






end
